theory Spec2Isabelle
  imports Complex_Main
begin

section \<open>Tokens and syntax trees\<close>

text \<open>
  Modelled from the spec: the token type. The lexer (\<^verbatim>\<open>lex.h\<close>, \<^verbatim>\<open>gettok\<close>) is not part
  of the sources at hand; the parser reads its result through \<^verbatim>\<open>cur_tok\<close> and the lexer's
  globals \<^verbatim>\<open>identifier_str\<close>, \<^verbatim>\<open>num_val\<close> and \<^verbatim>\<open>operator_name\<close>. The parser reads each
  global only while the token that set it is current, so the payload is carried by the
  token. A character that is no keyword, identifier or number is returned as itself
  (\<open>tok_char\<close>). The number payload is a C \<^verbatim>\<open>double\<close>; the parser only stores it and
  compares it with 1 and 100, which is modelled on \<open>real\<close>.
\<close>

datatype token =
    tok_eof
  | tok_def
  | tok_extern
  | tok_identifier string
  | tok_number real
  | tok_if
  | tok_then
  | tok_else
  | tok_for
  | tok_do
  | tok_end
  | tok_binary string
  | tok_unary string
  | tok_char char

text \<open>
  The classes of \<^verbatim>\<open>ast.h\<close>, with the members that \<^verbatim>\<open>parser.cpp\<close> passes to the
  constructors and \<^verbatim>\<open>codegen.cpp\<close> reads.
\<close>

datatype ExprAST =
    NumberExprAST real
  | VariableExprAST string
  | BinaryExprAST char ExprAST ExprAST
  | CallExprAST string "ExprAST list"
  | IfExprAST ExprAST ExprAST ExprAST
  | ForExpr string ExprAST ExprAST ExprAST ExprAST

record PrototypeAST =
  Name :: string
  Args :: "string list"
  IsOperator :: bool
  Precedence :: nat

record FunctionAST =
  Proto :: PrototypeAST
  Body :: ExprAST

section \<open>The parser (\<^verbatim>\<open>parser.cpp\<close>)\<close>

text \<open>
  The parser's globals: the current token, the tokens the lexer has still to deliver, the
  file-local table \<^verbatim>\<open>BINOP_PRECEDENCE\<close> (a \<^verbatim>\<open>std::map<char, int>\<close>, kept as an association
  list read with \<open>map_of\<close>), and the diagnostics \<^verbatim>\<open>log_error\<close> has printed.
\<close>

record pstate =
  cur_tok :: token
  input :: "token list"
  BINOP_PRECEDENCE :: "(char \<times> int) list"
  perrs :: "string list"

definition builtin_precedence :: "(char \<times> int) list" where
  "builtin_precedence = [(CHR ''<'', 10), (CHR ''+'', 20), (CHR ''-'', 20), (CHR ''*'', 40)]"

text \<open>Once the input is used up the lexer keeps answering \<open>tok_eof\<close>.\<close>

definition get_next_token :: "pstate \<Rightarrow> pstate" where
  "get_next_token s =
     (case input s of
        [] \<Rightarrow> s\<lparr>cur_tok := tok_eof\<rparr>
      | t # ts \<Rightarrow> s\<lparr>cur_tok := t, input := ts\<rparr>)"

text \<open>The state in which \<^verbatim>\<open>main\<close> enters the loop: the first token is primed.\<close>

definition start_parser :: "token list \<Rightarrow> pstate" where
  "start_parser toks =
     get_next_token \<lparr>cur_tok = tok_eof, input = toks,
                     BINOP_PRECEDENCE = builtin_precedence, perrs = []\<rparr>"

definition log_error :: "string \<Rightarrow> pstate \<Rightarrow> pstate" where
  "log_error str s = s\<lparr>perrs := perrs s @ [str]\<rparr>"

definition isascii :: "char \<Rightarrow> bool" where
  "isascii c = ((of_char c :: nat) < 128)"

definition get_tok_precedence :: "pstate \<Rightarrow> int" where
  "get_tok_precedence s =
     (case cur_tok s of
        tok_char c \<Rightarrow>
          if \<not> isascii c then - 1
          else (case map_of (BINOP_PRECEDENCE s) c of
                  None \<Rightarrow> - 1
                | Some tok_prec \<Rightarrow> if tok_prec \<le> 0 then - 1 else tok_prec)
      | _ \<Rightarrow> - 1)"

definition parse_number_expr :: "real \<Rightarrow> pstate \<Rightarrow> ExprAST option \<times> pstate" where
  "parse_number_expr num_val s = (Some (NumberExprAST num_val), get_next_token s)"

text \<open>
  The expression parser is mutually recursive and its loops run until the tokens tell them
  to stop. Every function takes a bound on the depth of calls still allowed; the result
  \<open>None\<close> means that the bound was too small, \<open>Some (None, s)\<close> is the source's
  \<^verbatim>\<open>nullptr\<close> and \<open>Some (Some e, s)\<close> a parsed tree, each with the parser state left behind.
  One round of a \<^verbatim>\<open>while (true)\<close> loop is one call (\<open>parse_call_args\<close> is the loop of
  \<^verbatim>\<open>parse_identifier_expr\<close>, \<open>parse_binop_rhs\<close> calls itself for the next round).

  In \<open>parse_binop_rhs\<close>, \<^verbatim>\<open>int binop = cur_tok\<close> is reached with a token that is no character
  only when the threshold is negative, which no caller passes; that branch gives up.
\<close>

fun parse_primary :: "nat \<Rightarrow> pstate \<Rightarrow> (ExprAST option \<times> pstate) option"
  and parse_paren_expr :: "nat \<Rightarrow> pstate \<Rightarrow> (ExprAST option \<times> pstate) option"
  and parse_if_expr :: "nat \<Rightarrow> pstate \<Rightarrow> (ExprAST option \<times> pstate) option"
  and parse_for_expr :: "nat \<Rightarrow> pstate \<Rightarrow> (ExprAST option \<times> pstate) option"
  and parse_identifier_expr :: "nat \<Rightarrow> string \<Rightarrow> pstate \<Rightarrow> (ExprAST option \<times> pstate) option"
  and parse_call_args :: "nat \<Rightarrow> ExprAST list \<Rightarrow> pstate \<Rightarrow> (ExprAST list option \<times> pstate) option"
  and parse_binop_rhs :: "nat \<Rightarrow> int \<Rightarrow> ExprAST \<Rightarrow> pstate \<Rightarrow> (ExprAST option \<times> pstate) option"
  and parse_expression :: "nat \<Rightarrow> pstate \<Rightarrow> (ExprAST option \<times> pstate) option"
where
  "parse_primary 0 s = None"
| "parse_primary (Suc n) s =
     (case cur_tok s of
        tok_identifier identifier_str \<Rightarrow> parse_identifier_expr n identifier_str s
      | tok_number num_val \<Rightarrow> Some (parse_number_expr num_val s)
      | tok_char c \<Rightarrow>
          if c = CHR ''('' then parse_paren_expr n s
          else Some (None, log_error ''unknown token when expecting an expression'' s)
      | tok_if \<Rightarrow> parse_if_expr n s
      | tok_for \<Rightarrow> parse_for_expr n s
      | _ \<Rightarrow> Some (None, log_error ''unknown token when expecting an expression'' s))"
| "parse_paren_expr 0 s = None"
| "parse_paren_expr (Suc n) s =
     (case parse_expression n (get_next_token s) of
        None \<Rightarrow> None
      | Some (None, s1) \<Rightarrow> Some (None, s1)
      | Some (Some V, s1) \<Rightarrow>
          if cur_tok s1 \<noteq> tok_char CHR '')''
          then Some (None, log_error (''expected ')'' @ [CHR 0x27]) s1)
          else Some (Some V, get_next_token s1))"
| "parse_if_expr 0 s = None"
| "parse_if_expr (Suc n) s =
     (case parse_expression n (get_next_token s) of
        None \<Rightarrow> None
      | Some (None, s1) \<Rightarrow> Some (None, s1)
      | Some (Some cond, s1) \<Rightarrow>
          if cur_tok s1 \<noteq> tok_then then Some (None, log_error ''expected `then`'' s1)
          else (case parse_expression n (get_next_token s1) of
                  None \<Rightarrow> None
                | Some (None, s2) \<Rightarrow> Some (None, s2)
                | Some (Some then', s2) \<Rightarrow>
                    if cur_tok s2 = tok_else
                    then (case parse_expression n (get_next_token s2) of
                            None \<Rightarrow> None
                          | Some (None, s3) \<Rightarrow> Some (None, s3)
                          | Some (Some else', s3) \<Rightarrow> Some (Some (IfExprAST cond then' else'), s3))
                    else Some (Some (IfExprAST cond then' (NumberExprAST 0)), s2)))"
| "parse_for_expr 0 s = None"
| "parse_for_expr (Suc n) s =
     (let s1 = get_next_token s in
      case cur_tok s1 of
        tok_identifier var \<Rightarrow>
          (let s2 = get_next_token s1 in
           if cur_tok s2 \<noteq> tok_char CHR ''=''
           then Some (None, log_error ''Expected `=` after identifier for initialization.'' s2)
           else
           (case parse_expression n (get_next_token s2) of
              None \<Rightarrow> None
            | Some (None, s3) \<Rightarrow>
                Some (None, log_error ''Error parsing initialization in for statement.'' s3)
            | Some (Some start, s3) \<Rightarrow>
           if cur_tok s3 \<noteq> tok_char CHR '',''
           then Some (None,
                  log_error ''Missing ',' separtor in for statement after initialization.'' s3)
           else
           (case parse_expression n (get_next_token s3) of
              None \<Rightarrow> None
            | Some (None, s4) \<Rightarrow>
                Some (None, log_error ''Error parsing condition in for statement.'' s4)
            | Some (Some condition, s4) \<Rightarrow>
           if cur_tok s4 \<noteq> tok_char CHR '',''
           then Some (None,
                  log_error ''Missing ',' separtor in for statement after condition.'' s4)
           else
           (case parse_expression n (get_next_token s4) of
              None \<Rightarrow> None
            | Some (None, s5) \<Rightarrow>
                Some (None, log_error ''Error parsing step in for statement.'' s5)
            | Some (Some step, s5) \<Rightarrow>
           if cur_tok s5 \<noteq> tok_do
           then Some (None, log_error ''Expected `do` in for statement.'' s5)
           else
           (case parse_expression n (get_next_token s5) of
              None \<Rightarrow> None
            | Some (None, s6) \<Rightarrow>
                Some (None, log_error ''Error parsing body in for statement.'' s6)
            | Some (Some body, s6) \<Rightarrow>
           if cur_tok s6 \<noteq> tok_end
           then Some (None, log_error ''Missing `end`.'' s6)
           else Some (Some (ForExpr var start condition step body), get_next_token s6))))))
      | _ \<Rightarrow> Some (None, log_error ''Expected identifier after `for`'' s1))"
| "parse_identifier_expr 0 id_name s = None"
| "parse_identifier_expr (Suc n) id_name s =
     (let s1 = get_next_token s in
      if cur_tok s1 \<noteq> tok_char CHR ''('' then Some (Some (VariableExprAST id_name), s1)
      else
        (let s2 = get_next_token s1 in
         if cur_tok s2 \<noteq> tok_char CHR '')''
         then (case parse_call_args n [] s2 of
                 None \<Rightarrow> None
               | Some (None, s3) \<Rightarrow> Some (None, s3)
               | Some (Some args, s3) \<Rightarrow>
                   Some (Some (CallExprAST id_name args), get_next_token s3))
         else Some (Some (CallExprAST id_name []), get_next_token s2)))"
| "parse_call_args 0 args s = None"
| "parse_call_args (Suc n) args s =
     (case parse_expression n s of
        None \<Rightarrow> None
      | Some (None, s1) \<Rightarrow> Some (None, s1)
      | Some (Some arg, s1) \<Rightarrow>
          if cur_tok s1 = tok_char CHR '')'' then Some (Some (args @ [arg]), s1)
          else if cur_tok s1 \<noteq> tok_char CHR '',''
          then Some (None, log_error ''Expected ')' or ',' in argument list'' s1)
          else parse_call_args n (args @ [arg]) (get_next_token s1))"
| "parse_binop_rhs 0 expr_prec LHS s = None"
| "parse_binop_rhs (Suc n) expr_prec LHS s =
     (let tok_prec = get_tok_precedence s in
      if tok_prec < expr_prec then Some (Some LHS, s)
      else
        (case cur_tok s of
           tok_char binop \<Rightarrow>
             (case parse_primary n (get_next_token s) of
                None \<Rightarrow> None
              | Some (None, s1) \<Rightarrow> Some (None, s1)
              | Some (Some RHS, s1) \<Rightarrow>
                  (let next_prec = get_tok_precedence s1 in
                   if tok_prec < next_prec
                   then (case parse_binop_rhs n (tok_prec + 1) RHS s1 of
                           None \<Rightarrow> None
                         | Some (None, s2) \<Rightarrow> Some (None, s2)
                         | Some (Some RHS', s2) \<Rightarrow>
                             parse_binop_rhs n expr_prec (BinaryExprAST binop LHS RHS') s2)
                   else parse_binop_rhs n expr_prec (BinaryExprAST binop LHS RHS) s1))
         | _ \<Rightarrow> Some (None, s)))"
| "parse_expression 0 s = None"
| "parse_expression (Suc n) s =
     (case parse_primary n s of
        None \<Rightarrow> None
      | Some (None, s1) \<Rightarrow> Some (None, s1)
      | Some (Some LHS, s1) \<Rightarrow> parse_binop_rhs n 0 LHS s1)"

text \<open>
  \<^verbatim>\<open>parse_prototype\<close>. The loop \<^verbatim>\<open>while (get_next_token() == tok_identifier)\<close> collects the
  identifiers; it ends at the first other token, at the latest at \<open>tok_eof\<close>.
\<close>

function read_arg_names :: "pstate \<Rightarrow> string list \<Rightarrow> string list \<times> pstate" where
  "read_arg_names s arg_names =
     (let s1 = get_next_token s in
      case cur_tok s1 of
        tok_identifier identifier_str \<Rightarrow> read_arg_names s1 (arg_names @ [identifier_str])
      | _ \<Rightarrow> (arg_names, s1))"
  by pat_completeness auto
termination
  by (relation "measure (\<lambda>(s, _). length (input s))")
     (auto simp: get_next_token_def split: list.splits)

text \<open>
  The part of \<^verbatim>\<open>parse_prototype\<close> after the \<^verbatim>\<open>switch\<close>, with the values the switch has set:
  the name, the kind (0 identifier, 1 unary, 2 binary) and the precedence.
\<close>

definition parse_prototype_params ::
  "string \<Rightarrow> nat \<Rightarrow> nat \<Rightarrow> pstate \<Rightarrow> PrototypeAST option \<times> pstate" where
  "parse_prototype_params fn_name kind precedence s =
     (if cur_tok s \<noteq> tok_char CHR ''(''
      then (None, log_error ''Expected '(' in prototype'' s)
      else
        (case read_arg_names s [] of (arg_names, s1) \<Rightarrow>
           if cur_tok s1 \<noteq> tok_char CHR '')''
           then (None, log_error ''Expected ')' in prototype'' s1)
           else
             (let s2 = get_next_token s1 in
              if kind \<noteq> 0 \<and> length arg_names \<noteq> kind
              then (None, log_error ''Invalid number of operands for operator.'' s2)
              else (Some \<lparr>Name = fn_name, Args = arg_names,
                          IsOperator = (kind \<noteq> 0), Precedence = precedence\<rparr>, s2))))"

text \<open>
  The \<^verbatim>\<open>switch\<close> has the cases \<^verbatim>\<open>tok_identifier\<close> and \<^verbatim>\<open>tok_binary\<close> and a default. The
  conversion \<^verbatim>\<open>precedence = num_val\<close> from \<^verbatim>\<open>double\<close> to \<^verbatim>\<open>unsigned\<close> drops the fraction;
  it is reached with \<open>1 \<le> num_val \<le> 100\<close> only.
\<close>

definition parse_prototype :: "pstate \<Rightarrow> PrototypeAST option \<times> pstate" where
  "parse_prototype s =
     (case cur_tok s of
        tok_identifier identifier_str \<Rightarrow>
          parse_prototype_params identifier_str 0 30 (get_next_token s)
      | tok_binary operator_name \<Rightarrow>
          (let s1 = get_next_token s in
           case cur_tok s1 of
             tok_number num_val \<Rightarrow>
               if num_val < 1 \<or> num_val > 100
               then (None, log_error ''Invalid precedence: must be 1..100'' s1)
               else parse_prototype_params (''binary'' @ operator_name) 2
                      (nat \<lfloor>num_val\<rfloor>) (get_next_token s1)
           | _ \<Rightarrow> parse_prototype_params (''binary'' @ operator_name) 2 30 s1)
      | _ \<Rightarrow> (None, log_error ''Expected function name in prototype'' s))"

definition parse_definition :: "nat \<Rightarrow> pstate \<Rightarrow> (FunctionAST option \<times> pstate) option" where
  "parse_definition n s =
     (case parse_prototype (get_next_token s) of
        (None, s1) \<Rightarrow> Some (None, s1)
      | (Some proto, s1) \<Rightarrow>
          (case parse_expression n s1 of
             None \<Rightarrow> None
           | Some (None, s2) \<Rightarrow> Some (None, s2)
           | Some (Some E, s2) \<Rightarrow> Some (Some \<lparr>Proto = proto, Body = E\<rparr>, s2)))"

definition parse_extern :: "pstate \<Rightarrow> PrototypeAST option \<times> pstate" where
  "parse_extern s = parse_prototype (get_next_token s)"


section \<open>The lowering (\<^verbatim>\<open>codegen.cpp\<close>)\<close>

subsection \<open>The compilation unit under construction\<close>

text \<open>
  The lowering builds its output through the LLVM library. The model keeps what the code
  reads back from it and what the properties below are about: the functions of the current
  module with their names, parameters and blocks, the instructions of each block in the
  order of their insertion, and the Builder's insertion block. Functions, blocks and
  instructions are objects addressed by pointer; the model numbers them from one counter.
  Constant folding and the optimisation passes (\<^verbatim>\<open>verifyFunction\<close>, \<^verbatim>\<open>TheFPM->run\<close>) are
  the library's business and are left out.

  Where the code would go through a null pointer of the library (a Builder without
  insertion block in \<^verbatim>\<open>GetInsertBlock()->getParent()\<close>, an instruction without block), the
  model goes on with \<open>None\<close> for the pointer and the library call that gets it does
  nothing. \<^verbatim>\<open>FunctionAST::codegen\<close> sets the insertion block before it lowers a body, so
  this does not occur while a definition is lowered.

  A value (\<^verbatim>\<open>Value *\<close>) is a constant, a function argument or the result of an
  instruction.
\<close>

datatype val =
    ConstantFP real
  | Argument nat nat
  | Inst nat

datatype instr =
    FAdd val val
  | FSub val val
  | FMul val val
  | FCmpULT val val
  | UIToFP val
  | FCmpONE val val
  | Call nat "val list"
  | Ret val
  | Br nat
  | CondBr val nat nat
  | PHI "(val \<times> nat option) list"

record inst =
  inst_op :: instr
  inst_name :: string
  inst_parent :: "nat option"

text \<open>
  A function of the module. The library keeps the names of a module's functions unique:
  \<^verbatim>\<open>Function::Create\<close> under a name that is taken yields a function that the library
  renames, so that \<^verbatim>\<open>getFunction\<close> keeps finding the earlier one; such a function has
  \<open>fn_name = None\<close> here. \<open>fn_blocks = []\<close> is \<^verbatim>\<open>F->empty()\<close>: a declaration.
\<close>

record func =
  fn_id :: nat
  fn_name :: "string option"
  fn_args :: "string list"
  fn_blocks :: "nat list"

text \<open>
  The globals of \<^verbatim>\<open>internal.cpp\<close> that \<^verbatim>\<open>codegen.cpp\<close> uses, the diagnostics printed by
  \<^verbatim>\<open>log_error\<close>, and the modules handed to the JIT so far. \<^verbatim>\<open>NamedValues\<close> is a
  \<^verbatim>\<open>std::map\<close> from names to pointers: a key can be absent (\<open>None\<close>), present with a null
  pointer (\<open>Some None\<close>) or present with a value.
\<close>

record cstate =
  TheModule :: "func list"
  FunctionProtos :: "string \<rightharpoonup> PrototypeAST"
  NamedValues :: "string \<rightharpoonup> val option"
  insert_block :: "nat option"
  block_label :: "nat \<rightharpoonup> string"
  block_insts :: "nat \<Rightarrow> nat list"
  insts :: "nat \<rightharpoonup> inst"
  next_id :: nat
  cerrs :: "string list"
  TheJIT :: "func list list"

definition getFunction :: "string \<Rightarrow> cstate \<Rightarrow> func option" where
  "getFunction name s = find (\<lambda>F. fn_name F = Some name) (TheModule s)"

text \<open>\<^verbatim>\<open>f->insert(f->end(), bb)\<close>; \<open>f\<close> is the result of a \<^verbatim>\<open>getParent()\<close>.\<close>

definition Function_insert :: "nat option \<Rightarrow> nat \<Rightarrow> cstate \<Rightarrow> cstate" where
  "Function_insert f bb s =
     s\<lparr>TheModule :=
         map (\<lambda>F. if Some (fn_id F) = f then F\<lparr>fn_blocks := fn_blocks F @ [bb]\<rparr> else F)
           (TheModule s)\<rparr>"

text \<open>\<^verbatim>\<open>BasicBlock::Create(*TheContext, label, f)\<close>, and without \<open>f\<close> a free block.\<close>

definition BasicBlock_Create :: "string \<Rightarrow> nat option \<Rightarrow> cstate \<Rightarrow> nat \<times> cstate" where
  "BasicBlock_Create label f s =
     (let bb = next_id s in
      (bb, Function_insert f bb
             (s\<lparr>block_label := (block_label s)(bb \<mapsto> label), next_id := Suc bb\<rparr>)))"

definition block_parent :: "nat \<Rightarrow> cstate \<Rightarrow> nat option" where
  "block_parent bb s = map_option fn_id (find (\<lambda>F. bb \<in> set (fn_blocks F)) (TheModule s))"

text \<open>\<^verbatim>\<open>Builder->GetInsertBlock()->getParent()\<close>\<close>

definition GetInsertBlock_getParent :: "cstate \<Rightarrow> nat option" where
  "GetInsertBlock_getParent s =
     (case insert_block s of None \<Rightarrow> None | Some bb \<Rightarrow> block_parent bb s)"

definition SetInsertPoint :: "nat option \<Rightarrow> cstate \<Rightarrow> cstate" where
  "SetInsertPoint bb s = s\<lparr>insert_block := bb\<rparr>"

text \<open>
  Every \<^verbatim>\<open>Builder->Create...\<close> call makes one instruction and appends it to the insertion
  block; the result is the new instruction.
\<close>

definition Builder_Insert :: "instr \<Rightarrow> string \<Rightarrow> cstate \<Rightarrow> nat \<times> cstate" where
  "Builder_Insert i nm s =
     (let k = next_id s in
      (k, s\<lparr>insts := (insts s)(k \<mapsto> \<lparr>inst_op = i, inst_name = nm, inst_parent = insert_block s\<rparr>),
            block_insts :=
              (case insert_block s of
                 None \<Rightarrow> block_insts s
               | Some bb \<Rightarrow> (block_insts s)(bb := block_insts s bb @ [k])),
            next_id := Suc k\<rparr>))"

definition addIncoming :: "nat \<Rightarrow> val \<Rightarrow> nat option \<Rightarrow> cstate \<Rightarrow> cstate" where
  "addIncoming phi v bb s =
     (case insts s phi of
        None \<Rightarrow> s
      | Some i \<Rightarrow>
          (case inst_op i of
             PHI incoming \<Rightarrow> s\<lparr>insts := (insts s)(phi \<mapsto> i\<lparr>inst_op := PHI (incoming @ [(v, bb)])\<rparr>)\<rparr>
           | _ \<Rightarrow> s))"

definition getParent :: "nat \<Rightarrow> cstate \<Rightarrow> nat option" where
  "getParent k s = (case insts s k of None \<Rightarrow> None | Some i \<Rightarrow> inst_parent i)"

definition Instruction_eraseFromParent :: "nat \<Rightarrow> cstate \<Rightarrow> cstate" where
  "Instruction_eraseFromParent k s =
     s\<lparr>insts := (insts s)(k := None),
       block_insts :=
         (case getParent k s of
            None \<Rightarrow> block_insts s
          | Some bb \<Rightarrow> (block_insts s)(bb := removeAll k (block_insts s bb)))\<rparr>"

definition Function_eraseFromParent :: "nat \<Rightarrow> cstate \<Rightarrow> cstate" where
  "Function_eraseFromParent f s = s\<lparr>TheModule := filter (\<lambda>F. fn_id F \<noteq> f) (TheModule s)\<rparr>"

text \<open>
  \<^verbatim>\<open>SplitBlockAndInsertIfThen(cond, branch, false)\<close> of the library: the block of \<open>branch\<close>
  (the head) is cut in front of \<open>branch\<close>, the cut-off part becomes a new block (the
  tail), a new block (the then-block) that only branches to the tail is put between them,
  and the head ends with a conditional branch to the then-block or the tail. The result is
  the branch that ends the then-block. The labels that the library gives to the two new
  blocks are not modelled (they are empty here).
\<close>

definition SplitBlockAndInsertIfThen :: "val \<Rightarrow> nat \<Rightarrow> cstate \<Rightarrow> nat \<times> cstate" where
  "SplitBlockAndInsertIfThen cond branch s =
     (case getParent branch s of
        None \<Rightarrow> (next_id s, s)
      | Some head \<Rightarrow>
          (let then_bb = next_id s;
               tail = then_bb + 1;
               check_term = then_bb + 2;
               head_term = then_bb + 3;
               kept = takeWhile (\<lambda>k. k \<noteq> branch) (block_insts s head);
               moved = dropWhile (\<lambda>k. k \<noteq> branch) (block_insts s head)
           in (check_term,
               s\<lparr>TheModule :=
                   map (\<lambda>F. F\<lparr>fn_blocks :=
                                concat (map (\<lambda>bb. if bb = head then [head, then_bb, tail] else [bb])
                                          (fn_blocks F))\<rparr>)
                     (TheModule s),
                 block_label := (block_label s)(then_bb \<mapsto> [], tail \<mapsto> []),
                 block_insts :=
                   (block_insts s)(head := kept @ [head_term], then_bb := [check_term],
                                   tail := moved),
                 insts :=
                   (\<lambda>k. if k \<in> set moved
                        then map_option (\<lambda>i. i\<lparr>inst_parent := Some tail\<rparr>) (insts s k)
                        else insts s k)
                   (check_term \<mapsto> \<lparr>inst_op = Br tail, inst_name = [], inst_parent = Some then_bb\<rparr>,
                    head_term \<mapsto> \<lparr>inst_op = CondBr cond then_bb tail, inst_name = [],
                                   inst_parent = Some head\<rparr>),
                 next_id := then_bb + 4\<rparr>)))"

subsection \<open>Lowering of prototypes and expressions\<close>

definition log_error_v :: "string \<Rightarrow> cstate \<Rightarrow> val option \<times> cstate" where
  "log_error_v str s = (None, s\<lparr>cerrs := cerrs s @ [str]\<rparr>)"

text \<open>\<^verbatim>\<open>NamedValues[name]\<close>: reading a key that is absent enters it with a null pointer.\<close>

definition NamedValues_at :: "string \<Rightarrow> cstate \<Rightarrow> val option \<times> cstate" where
  "NamedValues_at name s =
     (case NamedValues s name of
        None \<Rightarrow> (None, s\<lparr>NamedValues := (NamedValues s)(name \<mapsto> None)\<rparr>)
      | Some V \<Rightarrow> (V, s))"

text \<open>
  \<^verbatim>\<open>PrototypeAST::codegen\<close> creates the function in the current module and names its
  arguments after \<^verbatim>\<open>Args\<close>. (For a name that occurs twice in \<^verbatim>\<open>Args\<close> the library makes
  the later argument's name unique; the model keeps the names as they are passed, so that
  the later argument takes the name over in \<open>record_arguments\<close>.)
\<close>

definition PrototypeAST_codegen :: "PrototypeAST \<Rightarrow> cstate \<Rightarrow> func \<times> cstate" where
  "PrototypeAST_codegen p s =
     (let F = \<lparr>fn_id = next_id s,
               fn_name = (if getFunction (Name p) s = None then Some (Name p) else None),
               fn_args = Args p,
               fn_blocks = []\<rparr>
      in (F, s\<lparr>TheModule := TheModule s @ [F], next_id := Suc (next_id s)\<rparr>))"

definition get_function :: "string \<Rightarrow> cstate \<Rightarrow> func option \<times> cstate" where
  "get_function name s =
     (case getFunction name s of
        Some f \<Rightarrow> (Some f, s)
      | None \<Rightarrow>
          (case FunctionProtos s name of
             Some p \<Rightarrow> (case PrototypeAST_codegen p s of (F, s1) \<Rightarrow> (Some F, s1))
           | None \<Rightarrow> (None, s)))"

text \<open>
  The straight-line parts of \<^verbatim>\<open>IfExprAST::codegen\<close> between the lowerings of its three
  operands: from the comparison to the entry of the then-block; from the end of the
  then-branch to the entry of the else-block; from the end of the else-branch to the PHI
  node in the final block.
\<close>

definition IfExprAST_branch :: "val \<Rightarrow> cstate \<Rightarrow> nat option \<times> nat \<times> nat \<times> cstate" where
  "IfExprAST_branch cond_val s1 =
     (let (bool_cond, s2) = Builder_Insert (FCmpONE cond_val (ConstantFP 0)) ''ifcond'' s1;
          f = GetInsertBlock_getParent s2;
          (then_bb, s3) = BasicBlock_Create ''then'' f s2;
          (else_bb, s4) = BasicBlock_Create ''else'' None s3;
          (fin_bb, s5) = BasicBlock_Create ''finish'' None s4;
          (br, s6) = Builder_Insert (CondBr (Inst bool_cond) then_bb else_bb) [] s5;
          s7 = SetInsertPoint (Some then_bb) s6
      in (f, else_bb, fin_bb, s7))"

definition IfExprAST_else :: "nat option \<Rightarrow> nat \<Rightarrow> nat \<Rightarrow> cstate \<Rightarrow> nat option \<times> cstate" where
  "IfExprAST_else f else_bb fin_bb s8 =
     (let (br, s9) = Builder_Insert (Br fin_bb) [] s8;
          then_phi_bb = insert_block s9;
          s10 = Function_insert f else_bb s9;
          s11 = SetInsertPoint (Some else_bb) s10
      in (then_phi_bb, s11))"

definition IfExprAST_finish ::
  "nat option \<Rightarrow> nat \<Rightarrow> val \<Rightarrow> nat option \<Rightarrow> val \<Rightarrow> cstate \<Rightarrow> nat \<times> cstate" where
  "IfExprAST_finish f fin_bb then_val then_phi_bb else_val s12 =
     (let (br, s13) = Builder_Insert (Br fin_bb) [] s12;
          else_phi_bb = insert_block s13;
          s14 = Function_insert f fin_bb s13;
          s15 = SetInsertPoint (Some fin_bb) s14;
          (ret_val, s16) = Builder_Insert (PHI []) ''iftmp'' s15;
          s17 = addIncoming ret_val then_val then_phi_bb s16;
          s18 = addIncoming ret_val else_val else_phi_bb s17
      in (ret_val, s18))"

text \<open>
  The straight-line parts of \<^verbatim>\<open>ForExpr::codegen\<close>: from the creation of the loop block to
  the binding of the loop variable (the result carries the function, the two blocks, the
  PHI node and the value \<^verbatim>\<open>old_val\<close> the name had); from the comparison of the condition to
  the entry of the split-off block; from the addition of the step to the restoring of
  \<^verbatim>\<open>old_val\<close>.
\<close>

definition ForExpr_loop ::
  "string \<Rightarrow> val \<Rightarrow> cstate \<Rightarrow> nat option \<times> nat \<times> nat \<times> nat \<times> val option \<times> cstate" where
  "ForExpr_loop VarName start s1 =
     (let f = GetInsertBlock_getParent s1;
          first_bb = insert_block s1;
          (loop_bb, s2) = BasicBlock_Create ''loop'' f s1;
          (end_bb, s3) = BasicBlock_Create ''endfor'' None s2;
          (br, s4) = Builder_Insert (Br loop_bb) [] s3;
          s5 = SetInsertPoint (Some loop_bb) s4;
          (var, s6) = Builder_Insert (PHI []) ''loopval'' s5;
          s7 = addIncoming var start first_bb s6;
          (old_val, s8) = NamedValues_at VarName s7;
          s9 = s8\<lparr>NamedValues := (NamedValues s8)(VarName \<mapsto> Some (Inst var))\<rparr>
      in (f, loop_bb, end_bb, var, old_val, s9))"

definition ForExpr_split :: "val \<Rightarrow> nat \<Rightarrow> cstate \<Rightarrow> nat option \<times> cstate" where
  "ForExpr_split condition end_bb s10 =
     (let (bool_cond, s11) = Builder_Insert (FCmpONE condition (ConstantFP 0)) ''forcond'' s10;
          (branch, s12) = Builder_Insert (Br end_bb) [] s11;
          (then_inst, s13) = SplitBlockAndInsertIfThen (Inst bool_cond) branch s12;
          split_bb = getParent then_inst s13;
          s14 = SetInsertPoint split_bb s13;
          s15 = Instruction_eraseFromParent then_inst s14
      in (split_bb, s15))"

definition ForExpr_endfor ::
  "string \<Rightarrow> nat option \<Rightarrow> nat \<Rightarrow> nat \<Rightarrow> nat \<Rightarrow> val option \<Rightarrow> nat option \<Rightarrow> val \<Rightarrow>
   cstate \<Rightarrow> cstate" where
  "ForExpr_endfor VarName f loop_bb end_bb var old_val split_bb step s17 =
     (let (next_var, s18) = Builder_Insert (FAdd (Inst var) step) [] s17;
          s19 = addIncoming var (Inst next_var) split_bb s18;
          (br, s20) = Builder_Insert (Br loop_bb) [] s19;
          s21 = Function_insert f end_bb s20;
          s22 = SetInsertPoint (Some end_bb) s21
      in s22\<lparr>NamedValues := (NamedValues s22)(VarName \<mapsto> old_val)\<rparr>)"

text \<open>
  \<^verbatim>\<open>codegen\<close> of the expression classes; the result \<open>None\<close> is \<^verbatim>\<open>nullptr\<close>.
  \<open>codegen_args\<close> is the loop over \<^verbatim>\<open>Args\<close> in \<^verbatim>\<open>CallExprAST::codegen\<close>.
\<close>

fun codegen :: "ExprAST \<Rightarrow> cstate \<Rightarrow> val option \<times> cstate"
  and codegen_args :: "ExprAST list \<Rightarrow> val list \<Rightarrow> cstate \<Rightarrow> val list option \<times> cstate"
where
  "codegen (NumberExprAST Val) s = (Some (ConstantFP Val), s)"
| "codegen (VariableExprAST name) s =
     (case NamedValues_at name s of
        (None, s1) \<Rightarrow> log_error_v ''Unknown variable name'' s1
      | (Some V, s1) \<Rightarrow> (Some V, s1))"
| "codegen (BinaryExprAST Op LHS RHS) s =
     (case codegen LHS s of (L, s1) \<Rightarrow>
      case codegen RHS s1 of (R, s2) \<Rightarrow>
      (case (L, R) of
         (Some l, Some r) \<Rightarrow>
           if Op = CHR ''+'' then
             (case Builder_Insert (FAdd l r) ''addtmp'' s2 of (k, s3) \<Rightarrow> (Some (Inst k), s3))
           else if Op = CHR ''-'' then
             (case Builder_Insert (FSub l r) ''subtmp'' s2 of (k, s3) \<Rightarrow> (Some (Inst k), s3))
           else if Op = CHR ''*'' then
             (case Builder_Insert (FMul l r) ''multmp'' s2 of (k, s3) \<Rightarrow> (Some (Inst k), s3))
           else if Op = CHR ''<'' then
             (case Builder_Insert (FCmpULT l r) ''cmptmp'' s2 of (c, s3) \<Rightarrow>
              case Builder_Insert (UIToFP (Inst c)) ''booltmp'' s3 of (k, s4) \<Rightarrow>
                (Some (Inst k), s4))
           else log_error_v ''invalid binary operator'' s2
       | _ \<Rightarrow> (None, s2)))"
| "codegen (CallExprAST Callee Args') s =
     (case get_function Callee s of
        (None, s1) \<Rightarrow> log_error_v (''Unknown function '' @ Callee @ '' referenced'') s1
      | (Some CalleeF, s1) \<Rightarrow>
          if length (fn_args CalleeF) \<noteq> length Args'
          then log_error_v (''Incorrect number of arguments for function '' @ Callee) s1
          else (case codegen_args Args' [] s1 of
                  (None, s2) \<Rightarrow> (None, s2)
                | (Some ArgsV, s2) \<Rightarrow>
                    (case Builder_Insert (Call (fn_id CalleeF) ArgsV) ''calltmp'' s2 of
                       (k, s3) \<Rightarrow> (Some (Inst k), s3))))"
| "codegen (IfExprAST Condition Then Else) s =
     (case codegen Condition s of
        (None, s1) \<Rightarrow> (None, s1)
      | (Some cond_val, s1) \<Rightarrow>
          (case IfExprAST_branch cond_val s1 of (f, else_bb, fin_bb, s7) \<Rightarrow>
           case codegen Then s7 of
             (None, s8) \<Rightarrow> (None, s8)
           | (Some then_val, s8) \<Rightarrow>
               (case IfExprAST_else f else_bb fin_bb s8 of (then_phi_bb, s11) \<Rightarrow>
                case codegen Else s11 of
                  (None, s12) \<Rightarrow> (None, s12)
                | (Some else_val, s12) \<Rightarrow>
                    (case IfExprAST_finish f fin_bb then_val then_phi_bb else_val s12 of
                       (ret_val, s18) \<Rightarrow> (Some (Inst ret_val), s18)))))"
| "codegen (ForExpr VarName Start Condition Step Body') s =
     (case codegen Start s of
        (None, s1) \<Rightarrow> (None, s1)
      | (Some start, s1) \<Rightarrow>
          (case ForExpr_loop VarName start s1 of (f, loop_bb, end_bb, var, old_val, s9) \<Rightarrow>
           case codegen Condition s9 of
             (None, s10) \<Rightarrow> (None, s10)
           | (Some condition, s10) \<Rightarrow>
               (case ForExpr_split condition end_bb s10 of (split_bb, s15) \<Rightarrow>
                case codegen Body' s15 of
                  (None, s16) \<Rightarrow> (None, s16)
                | (Some body, s16) \<Rightarrow>
                    (case codegen Step s16 of
                       (None, s17) \<Rightarrow> (None, s17)
                     | (Some step, s17) \<Rightarrow>
                         (Some (ConstantFP 0),
                          ForExpr_endfor VarName f loop_bb end_bb var old_val split_bb step s17)))))"
| "codegen_args [] ArgsV s = (Some ArgsV, s)"
| "codegen_args (expr # Args') ArgsV s =
     (case codegen expr s of
        (None, s1) \<Rightarrow> (None, s1)
      | (Some v, s1) \<Rightarrow> codegen_args Args' (ArgsV @ [v]) s1)"

subsection \<open>Lowering of function definitions\<close>

text \<open>
  \<^verbatim>\<open>FunctionAST::codegen\<close> returns the function or \<^verbatim>\<open>nullptr\<close>. Its third way out is the
  branch for a function that has a body already: the message is built from
  \<^verbatim>\<open>Proto->get_name()\<close> after \<^verbatim>\<open>Proto\<close> has been moved into \<^verbatim>\<open>FunctionProtos\<close>, a call
  through a null pointer, whose behaviour C++ leaves undefined.
\<close>

datatype fn_result =
    Generated nat
  | Nullptr
  | Null_Proto_Dereferenced

text \<open>\<^verbatim>\<open>for (auto &arg : F->args()) NamedValues[std::string(arg.getName())] = &arg;\<close>\<close>

definition record_arguments :: "func \<Rightarrow> cstate \<Rightarrow> cstate" where
  "record_arguments F s =
     fold (\<lambda>(idx, arg_name) s'.
             s'\<lparr>NamedValues := (NamedValues s')(arg_name \<mapsto> Some (Argument (fn_id F) idx))\<rparr>)
       (enumerate 0 (fn_args F)) s"

definition FunctionAST_codegen :: "FunctionAST \<Rightarrow> cstate \<Rightarrow> fn_result \<times> cstate" where
  "FunctionAST_codegen fn s =
     (let p = Proto fn;
          s1 = s\<lparr>FunctionProtos := (FunctionProtos s)(Name p \<mapsto> p)\<rparr>
      in case get_function (Name p) s1 of
           (None, s2) \<Rightarrow> (Nullptr, s2)
         | (Some F, s2) \<Rightarrow>
             if fn_blocks F \<noteq> [] then (Null_Proto_Dereferenced, s2)
             else
               (let (BB, s3) = BasicBlock_Create ''entry'' (Some (fn_id F)) s2;
                    s4 = SetInsertPoint (Some BB) s3;
                    s5 = s4\<lparr>NamedValues := Map.empty\<rparr>;
                    s6 = record_arguments F s5
                in case codegen (Body fn) s6 of
                     (Some ret_value, s7) \<Rightarrow>
                       (case Builder_Insert (Ret ret_value) [] s7 of
                          (ret, s8) \<Rightarrow> (Generated (fn_id F), s8))
                   | (None, s7) \<Rightarrow> (Nullptr, Function_eraseFromParent (fn_id F) s7)))"

subsection \<open>Top-level handlers (\<^verbatim>\<open>parser.cpp\<close>)\<close>

text \<open>
  \<^verbatim>\<open>initialize_modules_and_managers\<close> opens a new, empty module and a new Builder, which
  has no insertion point. The prototypes, the scope and the precedence table are not
  touched.
\<close>

definition initialize_modules_and_managers :: "cstate \<Rightarrow> cstate" where
  "initialize_modules_and_managers s = s\<lparr>TheModule := [], insert_block := None\<rparr>"

definition initial_cstate :: cstate where
  "initial_cstate =
     \<lparr>TheModule = [], FunctionProtos = Map.empty, NamedValues = Map.empty,
      insert_block = None, block_label = Map.empty, block_insts = (\<lambda>bb. []),
      insts = Map.empty, next_id = 0, cerrs = [], TheJIT = []\<rparr>"

text \<open>
  A handler either leaves the session running, with the parser's and the lowering's
  state, or the process is gone. What the JIT does with a module it is given is outside
  the sources at hand; the module is recorded as handed over.
\<close>

datatype handled =
    Continue pstate cstate
  | Crashed

definition handle_definition :: "nat \<Rightarrow> pstate \<Rightarrow> cstate \<Rightarrow> handled option" where
  "handle_definition n ps cs =
     (case parse_definition n ps of
        None \<Rightarrow> None
      | Some (None, ps1) \<Rightarrow> Some (Continue (get_next_token ps1) cs)
      | Some (Some func, ps1) \<Rightarrow>
          (case FunctionAST_codegen func cs of
             (Generated IR, cs1) \<Rightarrow>
               Some (Continue ps1
                 (initialize_modules_and_managers (cs1\<lparr>TheJIT := TheJIT cs1 @ [TheModule cs1]\<rparr>)))
           | (Nullptr, cs1) \<Rightarrow> Some (Continue ps1 cs1)
           | (Null_Proto_Dereferenced, cs1) \<Rightarrow> Some Crashed))"

definition handle_extern :: "pstate \<Rightarrow> cstate \<Rightarrow> handled" where
  "handle_extern ps cs =
     (case parse_extern ps of
        (None, ps1) \<Rightarrow> Continue (get_next_token ps1) cs
      | (Some ext, ps1) \<Rightarrow>
          (case PrototypeAST_codegen ext cs of
             (extIR, cs1) \<Rightarrow>
               Continue ps1 (cs1\<lparr>FunctionProtos := (FunctionProtos cs1)(Name ext \<mapsto> ext)\<rparr>)))"

subsection \<open>The scope as the lowering reads it\<close>

text \<open>
  \<open>bindings s name\<close> is the pointer that \<^verbatim>\<open>NamedValues[name]\<close> reads in state \<open>s\<close>: a value,
  or nothing when the key is absent or holds a null pointer.
\<close>

definition bindings :: "cstate \<Rightarrow> string \<rightharpoonup> val" where
  "bindings s name = (case NamedValues s name of None \<Rightarrow> None | Some V \<Rightarrow> V)"

subsection \<open>Inputs of the worked examples\<close>

text \<open>
  The state in which \<^verbatim>\<open>FunctionAST::codegen\<close> lowers the body of \<^verbatim>\<open>def f(i) ...\<close> in a
  fresh session: the function and its entry block exist, the Builder stands at the end of
  the entry block, and the scope binds \<open>i\<close> to the function's argument.
\<close>

definition proto_f_i :: PrototypeAST where
  "proto_f_i = \<lparr>Name = ''f'', Args = [''i''], IsOperator = False, Precedence = 30\<rparr>"

definition in_f :: cstate where
  "in_f =
     \<lparr>TheModule = [\<lparr>fn_id = 0, fn_name = Some ''f'', fn_args = [''i''], fn_blocks = [1]\<rparr>],
      FunctionProtos = [''f'' \<mapsto> proto_f_i],
      NamedValues = [''i'' \<mapsto> Some (Argument 0 0)],
      insert_block = Some 1, block_label = [1 \<mapsto> ''entry''], block_insts = (\<lambda>bb. []),
      insts = Map.empty, next_id = 2, cerrs = [], TheJIT = []\<rparr>"

text \<open>\<^verbatim>\<open>for i = 1, i < 5, 1 do i end\<close> and \<^verbatim>\<open>for i = 1, zz, 1 do 1 end\<close>\<close>

definition loop_i :: ExprAST where
  "loop_i =
     ForExpr ''i'' (NumberExprAST 1)
       (BinaryExprAST CHR ''<'' (VariableExprAST ''i'') (NumberExprAST 5))
       (NumberExprAST 1) (VariableExprAST ''i'')"

definition loop_zz :: ExprAST where
  "loop_zz =
     ForExpr ''i'' (NumberExprAST 1) (VariableExprAST ''zz'') (NumberExprAST 1) (NumberExprAST 1)"

text \<open>\<^verbatim>\<open>def binary| 5 (a b) a; 1|0|1\<close>, and the lowering's state after the definition.\<close>

definition def_binary_or :: "token list" where
  "def_binary_or =
     [tok_def, tok_binary ''|'', tok_number 5, tok_char CHR ''('', tok_identifier ''a'',
      tok_identifier ''b'', tok_char CHR '')'', tok_identifier ''a'', tok_char CHR '';'',
      tok_number 1, tok_char CHR ''|'', tok_number 0, tok_char CHR ''|'', tok_number 1]"

definition proto_binary_or :: PrototypeAST where
  "proto_binary_or =
     \<lparr>Name = ''binary|'', Args = [''a'', ''b''], IsOperator = True, Precedence = 5\<rparr>"

definition after_def_binary_or :: cstate where
  "after_def_binary_or =
     \<lparr>TheModule = [],
      FunctionProtos = [''binary|'' \<mapsto> proto_binary_or],
      NamedValues = [''a'' \<mapsto> Some (Argument 0 0), ''b'' \<mapsto> Some (Argument 0 1)],
      insert_block = None, block_label = [1 \<mapsto> ''entry''],
      block_insts = (\<lambda>bb. [])(1 := [2]),
      insts = [2 \<mapsto> \<lparr>inst_op = Ret (Argument 0 0), inst_name = [], inst_parent = Some 1\<rparr>],
      next_id = 3, cerrs = [],
      TheJIT = [[\<lparr>fn_id = 0, fn_name = Some ''binary|'', fn_args = [''a'', ''b''],
                  fn_blocks = [1]\<rparr>]]\<rparr>"

text \<open>\<^verbatim>\<open>def foo(a) a; def foo(a) a;\<close>, and the lowering's state after each definition.\<close>

definition def_foo_twice :: "token list" where
  "def_foo_twice =
     [tok_def, tok_identifier ''foo'', tok_char CHR ''('', tok_identifier ''a'',
      tok_char CHR '')'', tok_identifier ''a'', tok_char CHR '';'',
      tok_def, tok_identifier ''foo'', tok_char CHR ''('', tok_identifier ''a'',
      tok_char CHR '')'', tok_identifier ''a'', tok_char CHR '';'']"

definition proto_foo :: PrototypeAST where
  "proto_foo = \<lparr>Name = ''foo'', Args = [''a''], IsOperator = False, Precedence = 30\<rparr>"

definition after_first_foo :: cstate where
  "after_first_foo =
     \<lparr>TheModule = [],
      FunctionProtos = [''foo'' \<mapsto> proto_foo],
      NamedValues = [''a'' \<mapsto> Some (Argument 0 0)],
      insert_block = None, block_label = [1 \<mapsto> ''entry''],
      block_insts = (\<lambda>bb. [])(1 := [2]),
      insts = [2 \<mapsto> \<lparr>inst_op = Ret (Argument 0 0), inst_name = [], inst_parent = Some 1\<rparr>],
      next_id = 3, cerrs = [],
      TheJIT = [[\<lparr>fn_id = 0, fn_name = Some ''foo'', fn_args = [''a''], fn_blocks = [1]\<rparr>]]\<rparr>"

definition after_second_foo :: cstate where
  "after_second_foo =
     \<lparr>TheModule = [],
      FunctionProtos = [''foo'' \<mapsto> proto_foo],
      NamedValues = [''a'' \<mapsto> Some (Argument 3 0)],
      insert_block = None, block_label = [1 \<mapsto> ''entry'', 4 \<mapsto> ''entry''],
      block_insts = (\<lambda>bb. [])(1 := [2], 4 := [5]),
      insts = [2 \<mapsto> \<lparr>inst_op = Ret (Argument 0 0), inst_name = [], inst_parent = Some 1\<rparr>,
               5 \<mapsto> \<lparr>inst_op = Ret (Argument 3 0), inst_name = [], inst_parent = Some 4\<rparr>],
      next_id = 6, cerrs = [],
      TheJIT = [[\<lparr>fn_id = 0, fn_name = Some ''foo'', fn_args = [''a''], fn_blocks = [1]\<rparr>],
                [\<lparr>fn_id = 3, fn_name = Some ''foo'', fn_args = [''a''], fn_blocks = [4]\<rparr>]]\<rparr>"

text \<open>
  \<^verbatim>\<open>extern foo(a); def foo(a) a;\<close>, and the lowering's state after the declaration; the
  state after the definition is \<open>after_first_foo\<close> again.
\<close>

definition extern_foo_def_foo :: "token list" where
  "extern_foo_def_foo =
     [tok_extern, tok_identifier ''foo'', tok_char CHR ''('', tok_identifier ''a'',
      tok_char CHR '')'', tok_char CHR '';'',
      tok_def, tok_identifier ''foo'', tok_char CHR ''('', tok_identifier ''a'',
      tok_char CHR '')'', tok_identifier ''a'', tok_char CHR '';'']"

definition after_extern_foo :: cstate where
  "after_extern_foo =
     \<lparr>TheModule = [\<lparr>fn_id = 0, fn_name = Some ''foo'', fn_args = [''a''], fn_blocks = []\<rparr>],
      FunctionProtos = [''foo'' \<mapsto> proto_foo],
      NamedValues = Map.empty,
      insert_block = None, block_label = Map.empty, block_insts = (\<lambda>bb. []),
      insts = Map.empty, next_id = 1, cerrs = [], TheJIT = []\<rparr>"

text \<open>\<^verbatim>\<open>extern f(a); def g() x + f(1);\<close>, and the lowering's state after each of the two.\<close>

definition extern_f_def_g :: "token list" where
  "extern_f_def_g =
     [tok_extern, tok_identifier ''f'', tok_char CHR ''('', tok_identifier ''a'',
      tok_char CHR '')'', tok_char CHR '';'',
      tok_def, tok_identifier ''g'', tok_char CHR ''('', tok_char CHR '')'',
      tok_identifier ''x'', tok_char CHR ''+'', tok_identifier ''f'', tok_char CHR ''('',
      tok_number 1, tok_char CHR '')'', tok_char CHR '';'']"

definition proto_f :: PrototypeAST where
  "proto_f = \<lparr>Name = ''f'', Args = [''a''], IsOperator = False, Precedence = 30\<rparr>"

definition proto_g :: PrototypeAST where
  "proto_g = \<lparr>Name = ''g'', Args = [], IsOperator = False, Precedence = 30\<rparr>"

definition after_extern_f :: cstate where
  "after_extern_f =
     \<lparr>TheModule = [\<lparr>fn_id = 0, fn_name = Some ''f'', fn_args = [''a''], fn_blocks = []\<rparr>],
      FunctionProtos = [''f'' \<mapsto> proto_f],
      NamedValues = Map.empty,
      insert_block = None, block_label = Map.empty, block_insts = (\<lambda>bb. []),
      insts = Map.empty, next_id = 1, cerrs = [], TheJIT = []\<rparr>"

definition after_def_g :: cstate where
  "after_def_g =
     \<lparr>TheModule = [\<lparr>fn_id = 0, fn_name = Some ''f'', fn_args = [''a''], fn_blocks = []\<rparr>],
      FunctionProtos = [''f'' \<mapsto> proto_f, ''g'' \<mapsto> proto_g],
      NamedValues = [''x'' \<mapsto> None],
      insert_block = Some 2, block_label = [2 \<mapsto> ''entry''],
      block_insts = (\<lambda>bb. [])(2 := [3]),
      insts = [3 \<mapsto> \<lparr>inst_op = Call 0 [ConstantFP 1], inst_name = ''calltmp'',
                        inst_parent = Some 2\<rparr>],
      next_id = 4, cerrs = [''Unknown variable name''], TheJIT = []\<rparr>"

text \<open>\<^verbatim>\<open>def f(a b) zz\<close>, whose body names no variable in scope.\<close>

definition def_f_zz :: FunctionAST where
  "def_f_zz =
     \<lparr>Proto = \<lparr>Name = ''f'', Args = [''a'', ''b''], IsOperator = False, Precedence = 30\<rparr>,
      Body = VariableExprAST ''zz''\<rparr>"

section \<open>Properties of the parser\<close>

declare read_arg_names.simps [simp del]

lemma read_arg_names_identifiers:
  "read_arg_names (s\<lparr>input := map tok_identifier ns @ tok_char c # rest\<rparr>) arg_names =
     (arg_names @ ns, s\<lparr>cur_tok := tok_char c, input := rest\<rparr>)"
proof (induction ns arbitrary: s arg_names)
  case Nil
  show ?case
    by (subst read_arg_names.simps) (simp add: get_next_token_def)
next
  case (Cons n ns)
  have "read_arg_names (s\<lparr>input := map tok_identifier (n # ns) @ tok_char c # rest\<rparr>) arg_names =
        read_arg_names ((s\<lparr>cur_tok := tok_identifier n\<rparr>)
                          \<lparr>input := map tok_identifier ns @ tok_char c # rest\<rparr>) (arg_names @ [n])"
    by (subst read_arg_names.simps) (simp add: get_next_token_def)
  then show ?case
    by (simp add: Cons.IH)
qed

text \<open>
  C7. With the built-in table, the tokens of \<^verbatim>\<open>1+2*3\<close> parse to
  \<open>BinaryOp(+, 1, BinaryOp( *, 2, 3))\<close> and the tokens of \<^verbatim>\<open>2*3+1\<close> to
  \<open>BinaryOp(+, BinaryOp( *, 2, 3), 1)\<close>: the product is an operand of the sum on either
  side. Both parses use up the input and print no diagnostic.
\<close>

theorem parse_expression_precedence:
  "parse_expression 6 (start_parser
      [tok_number 1, tok_char CHR ''+'', tok_number 2, tok_char CHR ''*'', tok_number 3]) =
   Some (Some (BinaryExprAST CHR ''+'' (NumberExprAST 1)
                 (BinaryExprAST CHR ''*'' (NumberExprAST 2) (NumberExprAST 3))),
         \<lparr>cur_tok = tok_eof, input = [], BINOP_PRECEDENCE = builtin_precedence, perrs = []\<rparr>)
   \<and>
   parse_expression 6 (start_parser
      [tok_number 2, tok_char CHR ''*'', tok_number 3, tok_char CHR ''+'', tok_number 1]) =
   Some (Some (BinaryExprAST CHR ''+''
                 (BinaryExprAST CHR ''*'' (NumberExprAST 2) (NumberExprAST 3)) (NumberExprAST 1)),
         \<lparr>cur_tok = tok_eof, input = [], BINOP_PRECEDENCE = builtin_precedence, perrs = []\<rparr>)"
  by (simp add: start_parser_def get_next_token_def numeral_eq_Suc parse_number_expr_def
        get_tok_precedence_def builtin_precedence_def isascii_def)

text \<open>
  C5. The prototype \<^verbatim>\<open>unary! (v)\<close> is not accepted: the \<^verbatim>\<open>switch\<close> of \<^verbatim>\<open>parse_prototype\<close>
  has no case for the \<^verbatim>\<open>unary\<close> keyword, so the default case reports that a function name
  was expected, and no token is consumed.
\<close>

theorem parse_prototype_unary_rejected:
  "parse_prototype (start_parser
      [tok_unary ''!'', tok_char CHR ''('', tok_identifier ''v'', tok_char CHR '')'']) =
   (None,
    \<lparr>cur_tok = tok_unary ''!'',
     input = [tok_char CHR ''('', tok_identifier ''v'', tok_char CHR '')''],
     BINOP_PRECEDENCE = builtin_precedence,
     perrs = [''Expected function name in prototype'']\<rparr>)"
  by (simp add: start_parser_def parse_prototype_def get_next_token_def log_error_def)

text \<open>
  C9, as the code has it. A prototype that starts with an identifier and has only
  identifiers between its parentheses is accepted whatever these identifiers are: its
  parameters are the identifiers in the order written, repeated names included.
\<close>

theorem parse_prototype_keeps_every_parameter:
  "parse_prototype
     \<lparr>cur_tok = tok_identifier f,
      input = tok_char CHR ''('' # map tok_identifier ns @ tok_char CHR '')'' # rest,
      BINOP_PRECEDENCE = T, perrs = E\<rparr> =
   (Some \<lparr>Name = f, Args = ns, IsOperator = False, Precedence = 30\<rparr>,
    get_next_token \<lparr>cur_tok = tok_char CHR '')'', input = rest, BINOP_PRECEDENCE = T, perrs = E\<rparr>)"
proof -
  let ?s = "\<lparr>cur_tok = tok_char CHR ''('', input = [], BINOP_PRECEDENCE = T, perrs = E\<rparr>"
  have "read_arg_names (?s\<lparr>input := map tok_identifier ns @ tok_char CHR '')'' # rest\<rparr>) [] =
        ([] @ ns, ?s\<lparr>cur_tok := tok_char CHR '')'', input := rest\<rparr>)"
    by (rule read_arg_names_identifiers)
  then show ?thesis
    by (simp add: parse_prototype_def parse_prototype_params_def get_next_token_def)
qed

text \<open>
  C9, the claim as stated fails: \<^verbatim>\<open>f(a a)\<close> is parsed to a prototype whose two parameters
  have the same name.
\<close>

theorem parse_prototype_repeated_parameter:
  "fst (parse_prototype (start_parser
          [tok_identifier ''f'', tok_char CHR ''('', tok_identifier ''a'', tok_identifier ''a'',
           tok_char CHR '')''])) =
     Some \<lparr>Name = ''f'', Args = [''a'', ''a''], IsOperator = False, Precedence = 30\<rparr>
   \<and> \<not> distinct [''a'', ''a'']"
  by (simp add: start_parser_def parse_prototype_def parse_prototype_params_def
        get_next_token_def read_arg_names.simps)


subsection \<open>The precedence table during parsing\<close>


lemma get_next_token_table [simp]:
  "BINOP_PRECEDENCE (get_next_token s) = BINOP_PRECEDENCE s"
  by (simp add: get_next_token_def split: list.splits)

lemma log_error_table [simp]: "BINOP_PRECEDENCE (log_error str s) = BINOP_PRECEDENCE s"
  by (simp add: log_error_def)

lemma read_arg_names_table:
  "BINOP_PRECEDENCE (snd (read_arg_names s arg_names)) = BINOP_PRECEDENCE s"
proof (induction s arg_names rule: read_arg_names.induct)
  case (1 s arg_names)
  show ?case
  proof (cases "cur_tok (get_next_token s)")
    case (tok_identifier x)
    with "1.IH" [OF refl tok_identifier] show ?thesis
      by (subst read_arg_names.simps) simp
  qed (subst read_arg_names.simps, simp)+
qed

lemma parse_prototype_params_table:
  "BINOP_PRECEDENCE (snd (parse_prototype_params f kind prec s)) = BINOP_PRECEDENCE s"
  using read_arg_names_table [of s "[]"]
  by (simp add: parse_prototype_params_def Let_def split_beta)

lemma parse_prototype_table:
  "BINOP_PRECEDENCE (snd (parse_prototype s)) = BINOP_PRECEDENCE s"
  by (simp add: parse_prototype_def Let_def parse_prototype_params_table split: token.splits)

lemma parse_expression_table_aux:
  "(\<forall>s r s'. parse_primary n s = Some (r, s') \<longrightarrow> BINOP_PRECEDENCE s' = BINOP_PRECEDENCE s) \<and>
   (\<forall>s r s'. parse_paren_expr n s = Some (r, s') \<longrightarrow> BINOP_PRECEDENCE s' = BINOP_PRECEDENCE s) \<and>
   (\<forall>s r s'. parse_if_expr n s = Some (r, s') \<longrightarrow> BINOP_PRECEDENCE s' = BINOP_PRECEDENCE s) \<and>
   (\<forall>s r s'. parse_for_expr n s = Some (r, s') \<longrightarrow> BINOP_PRECEDENCE s' = BINOP_PRECEDENCE s) \<and>
   (\<forall>x s r s'. parse_identifier_expr n x s = Some (r, s') \<longrightarrow>
       BINOP_PRECEDENCE s' = BINOP_PRECEDENCE s) \<and>
   (\<forall>a s r s'. parse_call_args n a s = Some (r, s') \<longrightarrow>
       BINOP_PRECEDENCE s' = BINOP_PRECEDENCE s) \<and>
   (\<forall>p l s r s'. parse_binop_rhs n p l s = Some (r, s') \<longrightarrow>
       BINOP_PRECEDENCE s' = BINOP_PRECEDENCE s) \<and>
   (\<forall>s r s'. parse_expression n s = Some (r, s') \<longrightarrow> BINOP_PRECEDENCE s' = BINOP_PRECEDENCE s)"
proof (induction n)
  case 0
  show ?case by simp
next
  case (Suc n)
  note primary = Suc.IH [THEN conjunct1, rule_format]
  note paren = Suc.IH [THEN conjunct2, THEN conjunct1, rule_format]
  note ifx = Suc.IH [THEN conjunct2, THEN conjunct2, THEN conjunct1, rule_format]
  note forx = Suc.IH [THEN conjunct2, THEN conjunct2, THEN conjunct2, THEN conjunct1, rule_format]
  note ident = Suc.IH [THEN conjunct2, THEN conjunct2, THEN conjunct2, THEN conjunct2, THEN conjunct1, rule_format]
  note args = Suc.IH [THEN conjunct2, THEN conjunct2, THEN conjunct2, THEN conjunct2, THEN conjunct2, THEN conjunct1, rule_format]
  note rhs = Suc.IH [THEN conjunct2, THEN conjunct2, THEN conjunct2, THEN conjunct2, THEN conjunct2, THEN conjunct2, THEN conjunct1, rule_format]
  note expr = Suc.IH [THEN conjunct2, THEN conjunct2, THEN conjunct2, THEN conjunct2, THEN conjunct2, THEN conjunct2, THEN conjunct2, rule_format]
  have 1: "\<forall>s r s'. parse_primary (Suc n) s = Some (r, s') \<longrightarrow>
             BINOP_PRECEDENCE s' = BINOP_PRECEDENCE s"
    by (auto simp: parse_number_expr_def split: token.splits if_splits
          dest!: ident paren ifx forx)
  have 2: "\<forall>s r s'. parse_paren_expr (Suc n) s = Some (r, s') \<longrightarrow>
             BINOP_PRECEDENCE s' = BINOP_PRECEDENCE s"
    by (auto split: option.splits if_splits dest!: expr)
  have 3: "\<forall>s r s'. parse_if_expr (Suc n) s = Some (r, s') \<longrightarrow>
             BINOP_PRECEDENCE s' = BINOP_PRECEDENCE s"
    by (auto split: option.splits if_splits dest!: expr)
  have 4: "\<forall>s r s'. parse_for_expr (Suc n) s = Some (r, s') \<longrightarrow>
             BINOP_PRECEDENCE s' = BINOP_PRECEDENCE s"
    by (auto simp: Let_def split: option.splits if_splits token.splits dest!: expr)
  have 5: "\<forall>x s r s'. parse_identifier_expr (Suc n) x s = Some (r, s') \<longrightarrow>
             BINOP_PRECEDENCE s' = BINOP_PRECEDENCE s"
    by (auto simp: Let_def split: option.splits if_splits dest!: args)
  have 6: "\<forall>a s r s'. parse_call_args (Suc n) a s = Some (r, s') \<longrightarrow>
             BINOP_PRECEDENCE s' = BINOP_PRECEDENCE s"
    by (auto split: option.splits if_splits dest!: expr args)
  have 7: "\<forall>p l s r s'. parse_binop_rhs (Suc n) p l s = Some (r, s') \<longrightarrow>
             BINOP_PRECEDENCE s' = BINOP_PRECEDENCE s"
    by (auto simp: Let_def split: option.splits if_splits token.splits dest!: primary rhs)
  have 8: "\<forall>s r s'. parse_expression (Suc n) s = Some (r, s') \<longrightarrow>
             BINOP_PRECEDENCE s' = BINOP_PRECEDENCE s"
    by (auto split: option.splits dest!: primary rhs)
  from 1 2 3 4 5 6 7 8 show ?case by blast
qed

lemma parse_expression_table:
  "parse_expression n s = Some (r, s') \<Longrightarrow> BINOP_PRECEDENCE s' = BINOP_PRECEDENCE s"
  using parse_expression_table_aux [of n] by blast

lemma parse_definition_table:
  "parse_definition n s = Some (r, s') \<Longrightarrow> BINOP_PRECEDENCE s' = BINOP_PRECEDENCE s"
  using parse_prototype_table [of "get_next_token s"]
  by (auto simp: parse_definition_def split: prod.splits option.splits
        dest!: parse_expression_table)

section \<open>Properties of the lowering\<close>

subsection \<open>What the library calls leave alone\<close>

lemma Function_insert_env [simp]:
  "FunctionProtos (Function_insert f bb s) = FunctionProtos s"
  "NamedValues (Function_insert f bb s) = NamedValues s"
  "cerrs (Function_insert f bb s) = cerrs s"
  by (simp_all add: Function_insert_def)

lemma BasicBlock_Create_env [simp]:
  "FunctionProtos (snd (BasicBlock_Create label f s)) = FunctionProtos s"
  "NamedValues (snd (BasicBlock_Create label f s)) = NamedValues s"
  "cerrs (snd (BasicBlock_Create label f s)) = cerrs s"
  by (simp_all add: BasicBlock_Create_def Let_def)

lemma SetInsertPoint_env [simp]:
  "FunctionProtos (SetInsertPoint bb s) = FunctionProtos s"
  "NamedValues (SetInsertPoint bb s) = NamedValues s"
  "cerrs (SetInsertPoint bb s) = cerrs s"
  by (simp_all add: SetInsertPoint_def)

lemma Builder_Insert_env [simp]:
  "FunctionProtos (snd (Builder_Insert i nm s)) = FunctionProtos s"
  "NamedValues (snd (Builder_Insert i nm s)) = NamedValues s"
  "cerrs (snd (Builder_Insert i nm s)) = cerrs s"
  by (simp_all add: Builder_Insert_def Let_def)

lemma addIncoming_env [simp]:
  "FunctionProtos (addIncoming phi v bb s) = FunctionProtos s"
  "NamedValues (addIncoming phi v bb s) = NamedValues s"
  "cerrs (addIncoming phi v bb s) = cerrs s"
  by (simp_all add: addIncoming_def split: option.splits instr.splits)

lemma Instruction_eraseFromParent_env [simp]:
  "FunctionProtos (Instruction_eraseFromParent k s) = FunctionProtos s"
  "NamedValues (Instruction_eraseFromParent k s) = NamedValues s"
  "cerrs (Instruction_eraseFromParent k s) = cerrs s"
  by (simp_all add: Instruction_eraseFromParent_def)

lemma Function_eraseFromParent_env [simp]:
  "FunctionProtos (Function_eraseFromParent f s) = FunctionProtos s"
  "NamedValues (Function_eraseFromParent f s) = NamedValues s"
  "cerrs (Function_eraseFromParent f s) = cerrs s"
  by (simp_all add: Function_eraseFromParent_def)

lemma SplitBlockAndInsertIfThen_env [simp]:
  "FunctionProtos (snd (SplitBlockAndInsertIfThen cond branch s)) = FunctionProtos s"
  "NamedValues (snd (SplitBlockAndInsertIfThen cond branch s)) = NamedValues s"
  "cerrs (snd (SplitBlockAndInsertIfThen cond branch s)) = cerrs s"
  by (simp_all add: SplitBlockAndInsertIfThen_def Let_def split: option.splits)

lemma PrototypeAST_codegen_env [simp]:
  "FunctionProtos (snd (PrototypeAST_codegen p s)) = FunctionProtos s"
  "NamedValues (snd (PrototypeAST_codegen p s)) = NamedValues s"
  "cerrs (snd (PrototypeAST_codegen p s)) = cerrs s"
  by (simp_all add: PrototypeAST_codegen_def Let_def)

lemma get_function_env [simp]:
  "FunctionProtos (snd (get_function name s)) = FunctionProtos s"
  "NamedValues (snd (get_function name s)) = NamedValues s"
  "cerrs (snd (get_function name s)) = cerrs s"
  by (simp_all add: get_function_def split_beta split: option.splits)

lemma log_error_v_env [simp]:
  "fst (log_error_v str s) = None"
  "FunctionProtos (snd (log_error_v str s)) = FunctionProtos s"
  "NamedValues (snd (log_error_v str s)) = NamedValues s"
  by (simp_all add: log_error_v_def)

lemma NamedValues_at_FunctionProtos [simp]:
  "FunctionProtos (snd (NamedValues_at name s)) = FunctionProtos s"
  by (simp add: NamedValues_at_def split: option.splits)

lemma IfExprAST_branch_env [simp]:
  "FunctionProtos (snd (snd (snd (IfExprAST_branch cond_val s)))) = FunctionProtos s"
  "NamedValues (snd (snd (snd (IfExprAST_branch cond_val s)))) = NamedValues s"
  by (simp_all add: IfExprAST_branch_def Let_def split_beta)

lemma IfExprAST_else_env [simp]:
  "FunctionProtos (snd (IfExprAST_else f else_bb fin_bb s)) = FunctionProtos s"
  "NamedValues (snd (IfExprAST_else f else_bb fin_bb s)) = NamedValues s"
  by (simp_all add: IfExprAST_else_def Let_def split_beta)

lemma IfExprAST_finish_env [simp]:
  "FunctionProtos (snd (IfExprAST_finish f fin_bb tv tb ev s)) = FunctionProtos s"
  "NamedValues (snd (IfExprAST_finish f fin_bb tv tb ev s)) = NamedValues s"
  by (simp_all add: IfExprAST_finish_def Let_def split_beta)

lemma ForExpr_split_env [simp]:
  "FunctionProtos (snd (ForExpr_split condition end_bb s)) = FunctionProtos s"
  "NamedValues (snd (ForExpr_split condition end_bb s)) = NamedValues s"
  by (simp_all add: ForExpr_split_def Let_def split_beta)

lemma ForExpr_endfor_env [simp]:
  "FunctionProtos (ForExpr_endfor VarName f loop_bb end_bb var old_val split_bb step s) =
     FunctionProtos s"
  "NamedValues (ForExpr_endfor VarName f loop_bb end_bb var old_val split_bb step s) =
     (NamedValues s)(VarName \<mapsto> old_val)"
  by (simp_all add: ForExpr_endfor_def Let_def split_beta)

lemma ForExpr_loop_env:
  assumes "ForExpr_loop VarName start s = (f, loop_bb, end_bb, var, old_val, s')"
  shows "FunctionProtos s' = FunctionProtos s"
    and "NamedValues s' = (NamedValues s)(VarName \<mapsto> Some (Inst var))"
    and "old_val = (case NamedValues s VarName of None \<Rightarrow> None | Some V \<Rightarrow> V)"
  using assms
  by (auto simp: ForExpr_loop_def Let_def split_beta NamedValues_at_def split: option.splits)

lemma ForExpr_loop_proj [simp]:
  "FunctionProtos (snd (snd (snd (snd (snd (ForExpr_loop VarName start s)))))) = FunctionProtos s"
  "NamedValues (snd (snd (snd (snd (snd (ForExpr_loop VarName start s)))))) =
     (NamedValues s)(VarName \<mapsto> Some (Inst (fst (snd (snd (snd (ForExpr_loop VarName start s)))))))"
  "fst (snd (snd (snd (snd (ForExpr_loop VarName start s))))) =
     (case NamedValues s VarName of None \<Rightarrow> None | Some V \<Rightarrow> V)"
  by (cases "ForExpr_loop VarName start s"; simp add: ForExpr_loop_env)+

subsection \<open>The prototype registry during the lowering of an expression\<close>

lemma codegen_args_FunctionProtos:
  assumes "\<And>a s. a \<in> set es \<Longrightarrow> FunctionProtos (snd (codegen a s)) = FunctionProtos s"
  shows "FunctionProtos (snd (codegen_args es ArgsV s)) = FunctionProtos s"
  using assms
  by (induction es arbitrary: ArgsV s) (simp_all add: split_beta split: option.splits)

lemma codegen_FunctionProtos: "FunctionProtos (snd (codegen e s)) = FunctionProtos s"
proof (induction e arbitrary: s)
  case (NumberExprAST x)
  show ?case by simp
next
  case (VariableExprAST x)
  show ?case by (simp add: split_beta split: option.splits)
next
  case (BinaryExprAST op l r)
  then show ?case by (simp add: split_beta split: option.splits)
next
  case (CallExprAST callee args)
  then show ?case
    by (simp add: split_beta codegen_args_FunctionProtos split: option.splits)
next
  case (IfExprAST c t e)
  then show ?case by (simp add: split_beta split: option.splits)
next
  case (ForExpr v st c sp b)
  then show ?case by (simp add: split_beta split: option.splits)
qed

subsection \<open>The scope after the lowering of an expression\<close>

lemma bindings_cong: "NamedValues s' = NamedValues s \<Longrightarrow> bindings s' = bindings s"
  by (simp add: bindings_def fun_eq_iff)

lemma bindings_upd:
  "NamedValues s' = (NamedValues s)(name \<mapsto> V) \<Longrightarrow> bindings s' = (bindings s)(name := V)"
  by (simp add: bindings_def fun_eq_iff)

lemma codegen_args_bindings:
  assumes "\<And>a s v s'. a \<in> set es \<Longrightarrow> codegen a s = (Some v, s') \<Longrightarrow> bindings s' = bindings s"
    and "codegen_args es ArgsV s = (Some vs, s')"
  shows "bindings s' = bindings s"
  using assms
proof (induction es arbitrary: ArgsV s)
  case Nil
  then show ?case by simp
next
  case (Cons e es)
  from Cons.prems(2) obtain v s1 where e: "codegen e s = (Some v, s1)"
    and rest: "codegen_args es (ArgsV @ [v]) s1 = (Some vs, s')"
    by (auto split: prod.splits option.splits)
  have "bindings s1 = bindings s"
    using Cons.prems(1) [of e s v s1] e by simp
  moreover have "bindings s' = bindings s1"
  proof (rule Cons.IH [OF _ rest])
    fix a t w t'
    assume "a \<in> set es" and "codegen a t = (Some w, t')"
    then show "bindings t' = bindings t"
      using Cons.prems(1) [of a t w t'] by simp
  qed
  ultimately show ?case by simp
qed

lemma codegen_bindings: "codegen e s = (Some v, s') \<Longrightarrow> bindings s' = bindings s"
proof (induction e arbitrary: s v s')
  case (NumberExprAST x)
  then show ?case by simp
next
  case (VariableExprAST x)
  then show ?case
    by (auto simp: NamedValues_at_def log_error_v_def bindings_def fun_eq_iff
             split: option.splits)
next
  case (BinaryExprAST op l r)
  from BinaryExprAST.prems obtain lv s1 rv s2
    where l: "codegen l s = (Some lv, s1)" and r: "codegen r s1 = (Some rv, s2)"
      and nv: "NamedValues s' = NamedValues s2"
    by (auto simp: log_error_v_def split: prod.splits option.splits if_splits
             dest!: arg_cong [where f = "\<lambda>p. NamedValues (snd p)"])
  show ?case
    using BinaryExprAST.IH(1) [OF l] BinaryExprAST.IH(2) [OF r] bindings_cong [OF nv] by simp
next
  case (CallExprAST callee args)
  from CallExprAST.prems obtain F s1 vs s2
    where g: "get_function callee s = (Some F, s1)"
      and a: "codegen_args args [] s1 = (Some vs, s2)"
      and nv: "NamedValues s' = NamedValues s2"
    by (auto simp: log_error_v_def split: prod.splits option.splits if_splits
             dest!: arg_cong [where f = "\<lambda>p. NamedValues (snd p)"])
  have "NamedValues s1 = NamedValues s"
    using get_function_env(2) [of callee s] g by simp
  moreover have "bindings s2 = bindings s1"
    using codegen_args_bindings [OF _ a] CallExprAST.IH by blast
  ultimately show ?case
    using bindings_cong [OF nv] bindings_cong [of s1 s] by simp
next
  case (IfExprAST c t e)
  from IfExprAST.prems obtain cv s1 f else_bb fin_bb s7 tv s8 tb s11 ev s12
    where c: "codegen c s = (Some cv, s1)"
      and b: "IfExprAST_branch cv s1 = (f, else_bb, fin_bb, s7)"
      and t: "codegen t s7 = (Some tv, s8)"
      and el: "IfExprAST_else f else_bb fin_bb s8 = (tb, s11)"
      and e: "codegen e s11 = (Some ev, s12)"
      and fin: "s' = snd (IfExprAST_finish f fin_bb tv tb ev s12)"
    by (auto split: prod.splits option.splits)
  have "NamedValues s7 = NamedValues s1"
    using IfExprAST_branch_env(2) [of cv s1] b by simp
  moreover have "NamedValues s11 = NamedValues s8"
    using IfExprAST_else_env(2) [of f else_bb fin_bb s8] el by simp
  moreover have "NamedValues s' = NamedValues s12"
    using fin by simp
  ultimately show ?case
    using IfExprAST.IH(1) [OF c] IfExprAST.IH(2) [OF t] IfExprAST.IH(3) [OF e]
    by (simp add: bindings_def fun_eq_iff)
next
  case (ForExpr x st c sp b)
  from ForExpr.prems obtain start s1 f loop_bb end_bb var old_val s9 cv s10 split_bb s15
      bv s16 stepv s17
    where st: "codegen st s = (Some start, s1)"
      and lp: "ForExpr_loop x start s1 = (f, loop_bb, end_bb, var, old_val, s9)"
      and c: "codegen c s9 = (Some cv, s10)"
      and spl: "ForExpr_split cv end_bb s10 = (split_bb, s15)"
      and b: "codegen b s15 = (Some bv, s16)"
      and sp: "codegen sp s16 = (Some stepv, s17)"
      and fin: "s' = ForExpr_endfor x f loop_bb end_bb var old_val split_bb stepv s17"
    by (auto split: prod.splits option.splits)
  have b9: "bindings s9 = (bindings s1)(x \<mapsto> Inst var)"
    using ForExpr_loop_env(2) [OF lp] by (rule bindings_upd)
  have old: "old_val = bindings s1 x"
    using ForExpr_loop_env(3) [OF lp] by (simp add: bindings_def)
  have "NamedValues s15 = NamedValues s10"
    using ForExpr_split_env(2) [of cv end_bb s10] spl by simp
  then have b15: "bindings s15 = bindings s10"
    by (rule bindings_cong)
  have "bindings s' = (bindings s17)(x := old_val)"
    using fin by (intro bindings_upd) simp
  also have "bindings s17 = bindings s9"
    using ForExpr.IH(2) [OF c] ForExpr.IH(4) [OF b] ForExpr.IH(3) [OF sp] b15 by simp
  finally show ?case
    using b9 old ForExpr.IH(1) [OF st] by (simp add: fun_eq_iff)
qed

lemma record_arguments_FunctionProtos [simp]:
  "FunctionProtos (record_arguments F s) = FunctionProtos s"
proof -
  have "FunctionProtos (fold (\<lambda>(idx, arg_name) s'.
            s'\<lparr>NamedValues := (NamedValues s')(arg_name \<mapsto> Some (Argument k idx))\<rparr>) xs s) =
        FunctionProtos s" for k xs
    by (induction xs arbitrary: s) (simp_all add: split_beta)
  then show ?thesis
    by (simp add: record_arguments_def)
qed

lemma get_function_registered:
  "FunctionProtos s name \<noteq> None \<Longrightarrow> fst (get_function name s) \<noteq> None"
  by (auto simp: get_function_def split_beta split: option.splits)

lemma Builder_Insert_fst [simp]: "fst (Builder_Insert i nm s) = next_id s"
  by (simp add: Builder_Insert_def Let_def)

section \<open>The worked examples\<close>

text \<open>
  The equations that evaluate the definitions on the example inputs, with every \<open>let\<close>
  unfolded.
\<close>

lemmas parser_unf =
  start_parser_def get_next_token_def log_error_def parse_number_expr_def
  get_tok_precedence_def builtin_precedence_def isascii_def
  parse_prototype_def [unfolded Let_def] parse_prototype_params_def [unfolded Let_def]
  parse_definition_def parse_extern_def read_arg_names.simps [unfolded Let_def]

lemmas lowering_unf =
  getFunction_def Function_insert_def BasicBlock_Create_def [unfolded Let_def]
  block_parent_def GetInsertBlock_getParent_def SetInsertPoint_def
  Builder_Insert_def [unfolded Let_def] addIncoming_def getParent_def
  Instruction_eraseFromParent_def Function_eraseFromParent_def
  log_error_v_def NamedValues_at_def PrototypeAST_codegen_def [unfolded Let_def]
  get_function_def ForExpr_loop_def [unfolded Let_def] record_arguments_def
  FunctionAST_codegen_def [unfolded Let_def] initialize_modules_and_managers_def
  initial_cstate_def handle_definition_def handle_extern_def

text \<open>
  \<open>in_f\<close> is the state in which the body of \<^verbatim>\<open>def f(i) ...\<close> is lowered in a fresh session.
\<close>

lemma FunctionAST_codegen_in_f:
  "FunctionAST_codegen \<lparr>Proto = proto_f_i, Body = e\<rparr> initial_cstate =
     (case codegen e in_f of
        (Some ret_value, s7) \<Rightarrow> (Generated 0, snd (Builder_Insert (Ret ret_value) [] s7))
      | (None, s7) \<Rightarrow> (Nullptr, Function_eraseFromParent 0 s7))"
proof (cases "codegen e in_f")
  case (Pair r s7)
  then show ?thesis
    by (cases r)
       (simp_all add: proto_f_i_def in_f_def FunctionAST_codegen_def get_function_def
          getFunction_def PrototypeAST_codegen_def BasicBlock_Create_def Function_insert_def
          SetInsertPoint_def record_arguments_def initial_cstate_def Let_def split_beta
          numeral_2_eq_2)
qed

text \<open>The loop \<^verbatim>\<open>for i = 1, i < 5, 1 do i end\<close> is lowered in every state.\<close>

lemma loop_i_lowers: "fst (codegen loop_i s) = Some (ConstantFP 0)"
  by (simp add: loop_i_def split_beta NamedValues_at_def)

lemma handle_def_binary_or:
  "handle_definition 3 (start_parser def_binary_or) initial_cstate =
     Some (Continue
       \<lparr>cur_tok = tok_char CHR '';'', input = drop 9 def_binary_or,
        BINOP_PRECEDENCE = builtin_precedence, perrs = []\<rparr>
       after_def_binary_or)"
  by (simp add: def_binary_or_def after_def_binary_or_def proto_binary_or_def
        parser_unf lowering_unf numeral_eq_Suc cong: prod.case_cong_weak)

lemma handle_first_foo:
  "handle_definition 3 (start_parser def_foo_twice) initial_cstate =
     Some (Continue
       \<lparr>cur_tok = tok_char CHR '';'', input = drop 7 def_foo_twice,
        BINOP_PRECEDENCE = builtin_precedence, perrs = []\<rparr>
       after_first_foo)"
  by (simp add: def_foo_twice_def after_first_foo_def proto_foo_def
        parser_unf lowering_unf numeral_eq_Suc cong: prod.case_cong_weak)

lemma handle_extern_f:
  "handle_extern (start_parser extern_f_def_g) initial_cstate =
     Continue
       \<lparr>cur_tok = tok_char CHR '';'', input = drop 6 extern_f_def_g,
        BINOP_PRECEDENCE = builtin_precedence, perrs = []\<rparr>
       after_extern_f"
  by (simp add: extern_f_def_g_def after_extern_f_def proto_f_def parser_unf lowering_unf
        cong: prod.case_cong_weak)

section \<open>Operators declared by the user\<close>

text \<open>
  C1, as the code has it. A binary node whose operator is none of \<^verbatim>\<open>+ - * <\<close> is never
  lowered to a call. Both operands are lowered, the left one first, and the result is
  \<^verbatim>\<open>nullptr\<close>; when both operands were lowered the diagnostic \<^verbatim>\<open>invalid binary operator\<close>
  is printed. Apart from the diagnostic the state is the one the operands left: no
  function is looked up and no instruction is inserted, whatever functions are declared.
\<close>

theorem BinaryExprAST_other_operator:
  assumes "Op \<notin> {CHR ''+'', CHR ''-'', CHR ''*'', CHR ''<''}"
    and "codegen LHS s = (L, s1)"
    and "codegen RHS s1 = (R, s2)"
  shows "codegen (BinaryExprAST Op LHS RHS) s =
           (None, if L \<noteq> None \<and> R \<noteq> None
                  then s2\<lparr>cerrs := cerrs s2 @ [''invalid binary operator'']\<rparr> else s2)"
  using assms by (auto simp: log_error_v_def split: option.splits)

text \<open>
  C1, an instance: after \<^verbatim>\<open>def binary| 5 (a b) a\<close>, lowering \<^verbatim>\<open>1 | b\<close> (whose operands are
  both lowered) only adds the diagnostic to the state.
\<close>

theorem BinaryExprAST_other_operator_witness:
  "CHR ''|'' \<notin> {CHR ''+'', CHR ''-'', CHR ''*'', CHR ''<''} \<and>
   codegen (BinaryExprAST CHR ''|'' (NumberExprAST 1) (VariableExprAST ''b'')) after_def_binary_or =
     (None, after_def_binary_or\<lparr>cerrs := [''invalid binary operator'']\<rparr>)"
proof -
  have op: "CHR ''|'' \<notin> {CHR ''+'', CHR ''-'', CHR ''*'', CHR ''<''}"
    by simp
  have l: "codegen (NumberExprAST 1) after_def_binary_or =
             (Some (ConstantFP 1), after_def_binary_or)"
    by simp
  have r: "codegen (VariableExprAST ''b'') after_def_binary_or =
             (Some (Argument 0 1), after_def_binary_or)"
    by (simp add: after_def_binary_or_def NamedValues_at_def)
  from BinaryExprAST_other_operator [OF op l r] op show ?thesis
    by (simp add: after_def_binary_or_def)
qed

text \<open>
  C1, the claim as stated fails. The submission \<^verbatim>\<open>def binary| 5 (a b) a\<close> is parsed and
  lowered and leaves the function \<^verbatim>\<open>binary|\<close> in the registry of prototypes; in that state
  the lowering of \<^verbatim>\<open>1 | 0\<close> is \<^verbatim>\<open>nullptr\<close> with the diagnostic
  \<^verbatim>\<open>invalid binary operator\<close>, and no instruction is inserted.
\<close>

theorem BinaryExprAST_declared_operator_fails:
  "handle_definition 3 (start_parser def_binary_or) initial_cstate =
     Some (Continue
       \<lparr>cur_tok = tok_char CHR '';'', input = drop 9 def_binary_or,
        BINOP_PRECEDENCE = builtin_precedence, perrs = []\<rparr>
       after_def_binary_or) \<and>
   FunctionProtos after_def_binary_or ''binary|'' = Some proto_binary_or \<and>
   codegen (BinaryExprAST CHR ''|'' (NumberExprAST 1) (NumberExprAST 0)) after_def_binary_or =
     (None, after_def_binary_or\<lparr>cerrs := [''invalid binary operator'']\<rparr>)"
  using handle_def_binary_or by (simp add: after_def_binary_or_def log_error_v_def)

text \<open>
  C2, as the code has it. No \<^verbatim>\<open>def\<close> and no \<^verbatim>\<open>extern\<close>, of a \<^verbatim>\<open>binary\<close> prototype or of any
  other, changes the table of operator precedences: whenever a handler returns, the table
  is the one it was called with. (The declared precedence is kept in the prototype only.)
\<close>

theorem declarations_keep_precedence_table:
  assumes "handle_definition n ps cs = Some (Continue ps' cs') \<or>
           handle_extern ps cs = Continue ps' cs'"
  shows "BINOP_PRECEDENCE ps' = BINOP_PRECEDENCE ps"
  using assms parse_prototype_table [of "get_next_token ps"]
  by (auto simp: handle_definition_def handle_extern_def parse_extern_def
        split: option.splits prod.splits fn_result.splits
        dest!: parse_definition_table)

text \<open>
  C2, an instance: the table after \<^verbatim>\<open>def binary| 5 (a b) a\<close> is the table of the start.
\<close>

theorem declarations_keep_precedence_table_witness:
  "handle_definition 3 (start_parser def_binary_or) initial_cstate =
     Some (Continue
       \<lparr>cur_tok = tok_char CHR '';'', input = drop 9 def_binary_or,
        BINOP_PRECEDENCE = builtin_precedence, perrs = []\<rparr>
       after_def_binary_or) \<and>
   BINOP_PRECEDENCE \<lparr>cur_tok = tok_char CHR '';'', input = drop 9 def_binary_or,
        BINOP_PRECEDENCE = builtin_precedence, perrs = []\<rparr> =
     BINOP_PRECEDENCE (start_parser def_binary_or)"
  using handle_def_binary_or
    declarations_keep_precedence_table [OF disjI1 [OF handle_def_binary_or]]
  by simp

text \<open>
  C2, the claim as stated fails. After \<^verbatim>\<open>def binary| 5 (a b) a\<close> has been parsed and lowered
  the table is the built-in one, in which \<^verbatim>\<open>|\<close> has no entry; the main loop skips the
  \<^verbatim>\<open>;\<close>, and parsing \<^verbatim>\<open>1|0|1\<close> yields the number 1 and stops in front of the first \<^verbatim>\<open>|\<close>.
\<close>

theorem binary_declaration_leaves_table:
  "handle_definition 3 (start_parser def_binary_or) initial_cstate =
     Some (Continue
       \<lparr>cur_tok = tok_char CHR '';'', input = drop 9 def_binary_or,
        BINOP_PRECEDENCE = builtin_precedence, perrs = []\<rparr>
       after_def_binary_or) \<and>
   map_of builtin_precedence CHR ''|'' = None \<and>
   parse_expression 3
     (get_next_token \<lparr>cur_tok = tok_char CHR '';'', input = drop 9 def_binary_or,
                      BINOP_PRECEDENCE = builtin_precedence, perrs = []\<rparr>) =
     Some (Some (NumberExprAST 1),
           \<lparr>cur_tok = tok_char CHR ''|'',
            input = [tok_number 0, tok_char CHR ''|'', tok_number 1],
            BINOP_PRECEDENCE = builtin_precedence, perrs = []\<rparr>)"
  using handle_def_binary_or
  by (simp add: def_binary_or_def parser_unf numeral_eq_Suc)

section \<open>Definitions across submissions\<close>

text \<open>
  C3. The second \<^verbatim>\<open>def foo(a) a\<close> is lowered like the first. The module in which
  \<^verbatim>\<open>FunctionAST::codegen\<close> looks for a body of \<^verbatim>\<open>foo\<close> is the fresh one that was opened after
  the first submission, so the test \<^verbatim>\<open>!F->empty()\<close> finds a new declaration and no
  redefinition is reported: no diagnostic is printed, and a second module that defines
  \<^verbatim>\<open>foo\<close> is handed to the JIT.
\<close>

theorem second_definition_is_lowered:
  "handle_definition 3 (start_parser def_foo_twice) initial_cstate =
     Some (Continue
       \<lparr>cur_tok = tok_char CHR '';'', input = drop 7 def_foo_twice,
        BINOP_PRECEDENCE = builtin_precedence, perrs = []\<rparr>
       after_first_foo) \<and>
   handle_definition 3
     (get_next_token \<lparr>cur_tok = tok_char CHR '';'', input = drop 7 def_foo_twice,
                      BINOP_PRECEDENCE = builtin_precedence, perrs = []\<rparr>)
     after_first_foo =
     Some (Continue
       \<lparr>cur_tok = tok_char CHR '';'', input = [],
        BINOP_PRECEDENCE = builtin_precedence, perrs = []\<rparr>
       after_second_foo)"
proof
  show "handle_definition 3 (start_parser def_foo_twice) initial_cstate =
     Some (Continue
       \<lparr>cur_tok = tok_char CHR '';'', input = drop 7 def_foo_twice,
        BINOP_PRECEDENCE = builtin_precedence, perrs = []\<rparr>
       after_first_foo)"
    by (rule handle_first_foo)
  show "handle_definition 3
     (get_next_token \<lparr>cur_tok = tok_char CHR '';'', input = drop 7 def_foo_twice,
                      BINOP_PRECEDENCE = builtin_precedence, perrs = []\<rparr>)
     after_first_foo =
     Some (Continue
       \<lparr>cur_tok = tok_char CHR '';'', input = [],
        BINOP_PRECEDENCE = builtin_precedence, perrs = []\<rparr>
       after_second_foo)"
    by (simp add: def_foo_twice_def after_first_foo_def after_second_foo_def proto_foo_def
          parser_unf lowering_unf numeral_eq_Suc cong: prod.case_cong_weak)
qed

text \<open>
  For comparison: a definition that follows a declaration of the same name is lowered
  into the declared function, and the redefinition branch is not entered.
\<close>

lemma definition_after_extern_is_lowered:
  "handle_extern (start_parser extern_foo_def_foo) initial_cstate =
     Continue
       \<lparr>cur_tok = tok_char CHR '';'', input = drop 6 extern_foo_def_foo,
        BINOP_PRECEDENCE = builtin_precedence, perrs = []\<rparr>
       after_extern_foo \<and>
   handle_definition 3
     (get_next_token \<lparr>cur_tok = tok_char CHR '';'', input = drop 6 extern_foo_def_foo,
                      BINOP_PRECEDENCE = builtin_precedence, perrs = []\<rparr>)
     after_extern_foo =
     Some (Continue
       \<lparr>cur_tok = tok_char CHR '';'', input = [],
        BINOP_PRECEDENCE = builtin_precedence, perrs = []\<rparr>
       after_first_foo)"
  by (simp add: extern_foo_def_foo_def after_extern_foo_def after_first_foo_def proto_foo_def
        parser_unf lowering_unf numeral_eq_Suc cong: prod.case_cong_weak)

text \<open>
  C10. When \<^verbatim>\<open>FunctionAST::codegen\<close> returns \<^verbatim>\<open>nullptr\<close>, the lowering of the body has
  failed; the registry of prototypes then is the one of the start with the definition's
  prototype stored under its name, in place of whatever was stored there, and the function
  that was being built is no longer in the module.
\<close>

theorem FunctionAST_codegen_failure_keeps_prototype:
  assumes "FunctionAST_codegen fn s = (Nullptr, s')"
  shows "FunctionProtos s' = (FunctionProtos s)(Name (Proto fn) \<mapsto> Proto fn) \<and>
         (\<exists>F s2 s6 s7.
            get_function (Name (Proto fn))
              (s\<lparr>FunctionProtos := (FunctionProtos s)(Name (Proto fn) \<mapsto> Proto fn)\<rparr>) =
              (Some F, s2) \<and>
            codegen (Body fn) s6 = (None, s7) \<and>
            s' = Function_eraseFromParent (fn_id F) s7 \<and>
            fn_id F \<notin> fn_id ` set (TheModule s'))"
proof -
  let ?s1 = "s\<lparr>FunctionProtos := (FunctionProtos s)(Name (Proto fn) \<mapsto> Proto fn)\<rparr>"
  have "fst (get_function (Name (Proto fn)) ?s1) \<noteq> None"
    by (rule get_function_registered) simp
  then obtain F s2 where g: "get_function (Name (Proto fn)) ?s1 = (Some F, s2)"
    by (cases "get_function (Name (Proto fn)) ?s1") auto
  have fp2: "FunctionProtos s2 = FunctionProtos ?s1"
    using get_function_env(1) [of "Name (Proto fn)" ?s1] g by simp
  define s6 where
    "s6 = record_arguments F
            (SetInsertPoint (Some (fst (BasicBlock_Create ''entry'' (Some (fn_id F)) s2)))
               (snd (BasicBlock_Create ''entry'' (Some (fn_id F)) s2))
             \<lparr>NamedValues := Map.empty\<rparr>)"
  obtain r s7 where body': "codegen (Body fn) s6 = (r, s7)"
    by (cases "codegen (Body fn) s6")
  have s6: "FunctionProtos s6 = FunctionProtos s2"
    by (simp add: s6_def)
  have "FunctionAST_codegen fn s =
          (if fn_blocks F \<noteq> [] then (Null_Proto_Dereferenced, s2)
           else case r of
                  Some ret_value \<Rightarrow>
                    (Generated (fn_id F), snd (Builder_Insert (Ret ret_value) [] s7))
                | None \<Rightarrow> (Nullptr, Function_eraseFromParent (fn_id F) s7))"
    using g body'
    by (cases r) (simp_all add: FunctionAST_codegen_def Let_def split_beta s6_def)
  with assms have body: "codegen (Body fn) s6 = (None, s7)"
    and s': "s' = Function_eraseFromParent (fn_id F) s7"
    using body' by (auto split: if_splits option.splits)
  have "FunctionProtos s7 = FunctionProtos s6"
    using codegen_FunctionProtos [of "Body fn" s6] body by simp
  with s6 fp2 s' have "FunctionProtos s' = (FunctionProtos s)(Name (Proto fn) \<mapsto> Proto fn)"
    by simp
  moreover have "fn_id F \<notin> fn_id ` set (TheModule s')"
    using s' by (auto simp: Function_eraseFromParent_def)
  ultimately show ?thesis
    using g body s' by blast
qed

text \<open>
  C10, an instance: after \<^verbatim>\<open>extern f(a)\<close> the definition \<^verbatim>\<open>def f(a b) zz\<close> fails in its body;
  the registry then holds the prototype with two parameters in place of the declared one,
  and the module is empty.
\<close>

theorem FunctionAST_codegen_failure_keeps_prototype_witness:
  "FunctionProtos after_extern_f ''f'' = Some proto_f \<and>
   fst (FunctionAST_codegen def_f_zz after_extern_f) = Nullptr \<and>
   FunctionProtos (snd (FunctionAST_codegen def_f_zz after_extern_f)) =
     (FunctionProtos after_extern_f)(''f'' \<mapsto> Proto def_f_zz) \<and>
   TheModule (snd (FunctionAST_codegen def_f_zz after_extern_f)) = []"
proof -
  have ev: "fst (FunctionAST_codegen def_f_zz after_extern_f) = Nullptr \<and>
            TheModule (snd (FunctionAST_codegen def_f_zz after_extern_f)) = []"
    by (simp add: def_f_zz_def after_extern_f_def proto_f_def lowering_unf
          cong: prod.case_cong_weak)
  then obtain s' where h: "FunctionAST_codegen def_f_zz after_extern_f = (Nullptr, s')"
    by (cases "FunctionAST_codegen def_f_zz after_extern_f") auto
  from FunctionAST_codegen_failure_keeps_prototype [OF h]
  have "FunctionProtos s' = (FunctionProtos after_extern_f)(Name (Proto def_f_zz) \<mapsto> Proto def_f_zz)"
    by blast
  with h ev show ?thesis
    by (simp add: def_f_zz_def after_extern_f_def)
qed

section \<open>Operands and loops\<close>

text \<open>
  C4. In \<^verbatim>\<open>extern f(a); def g() x + f(1);\<close> the left operand of the sum fails, since \<^verbatim>\<open>x\<close> is
  unbound (\<^verbatim>\<open>Unknown variable name\<close>), and the right operand is lowered all the same:
  the call of \<^verbatim>\<open>f\<close> is inserted into the entry block of \<^verbatim>\<open>g\<close> as instruction 3. The sum
  itself is not inserted, and \<^verbatim>\<open>g\<close> is erased from the module.
\<close>

theorem BinaryExprAST_lowers_right_after_failed_left:
  "handle_extern (start_parser extern_f_def_g) initial_cstate =
     Continue
       \<lparr>cur_tok = tok_char CHR '';'', input = drop 6 extern_f_def_g,
        BINOP_PRECEDENCE = builtin_precedence, perrs = []\<rparr>
       after_extern_f \<and>
   handle_definition 7
     (get_next_token \<lparr>cur_tok = tok_char CHR '';'', input = drop 6 extern_f_def_g,
                      BINOP_PRECEDENCE = builtin_precedence, perrs = []\<rparr>)
     after_extern_f =
     Some (Continue
       \<lparr>cur_tok = tok_char CHR '';'', input = [],
        BINOP_PRECEDENCE = builtin_precedence, perrs = []\<rparr>
       after_def_g)"
proof
  show "handle_extern (start_parser extern_f_def_g) initial_cstate =
     Continue
       \<lparr>cur_tok = tok_char CHR '';'', input = drop 6 extern_f_def_g,
        BINOP_PRECEDENCE = builtin_precedence, perrs = []\<rparr>
       after_extern_f"
    by (rule handle_extern_f)
  show "handle_definition 7
     (get_next_token \<lparr>cur_tok = tok_char CHR '';'', input = drop 6 extern_f_def_g,
                      BINOP_PRECEDENCE = builtin_precedence, perrs = []\<rparr>)
     after_extern_f =
     Some (Continue
       \<lparr>cur_tok = tok_char CHR '';'', input = [],
        BINOP_PRECEDENCE = builtin_precedence, perrs = []\<rparr>
       after_def_g)"
    by (simp add: extern_f_def_g_def after_extern_f_def after_def_g_def proto_f_def
          proto_g_def parser_unf lowering_unf numeral_eq_Suc cong: prod.case_cong_weak)
qed

text \<open>
  For comparison: the loop over the arguments of a call stops at the first argument whose
  lowering fails; the state is the one this argument left, so no later argument has been
  lowered and no call has been inserted.
\<close>

lemma codegen_args_stops_at_failure:
  "codegen_args es ArgsV s = (Some vs, s1) \<Longrightarrow> codegen expr s1 = (None, s2) \<Longrightarrow>
   codegen_args (es @ expr # Args') ArgsV s = (None, s2)"
  by (induction es arbitrary: ArgsV s) (auto split: prod.splits option.splits)

lemma CallExprAST_stops_at_failure:
  assumes "get_function Callee s = (Some CalleeF, s0)"
    and "length (fn_args CalleeF) = length (es @ expr # Args')"
    and "codegen_args es [] s0 = (Some vs, s1)"
    and "codegen expr s1 = (None, s2)"
  shows "codegen (CallExprAST Callee (es @ expr # Args')) s = (None, s2)"
  using assms codegen_args_stops_at_failure [of es "[]" s0 vs s1 expr s2 Args']
  by simp

text \<open>
  C6. Whenever the lowering of a loop succeeds, its value is the constant 0, whatever the
  loop's parts are and whatever the state is.
\<close>

theorem ForExpr_value_is_zero:
  "codegen (ForExpr VarName Start Condition Step Body') s = (Some v, s') \<Longrightarrow> v = ConstantFP 0"
  by (auto split: prod.splits option.splits)

text \<open>
  C6, an instance: the loop \<^verbatim>\<open>for i = 1, i < 5, 1 do i end\<close> in the body of \<^verbatim>\<open>def f(i)\<close>,
  whose own body is the loop variable, has the value 0.
\<close>

theorem ForExpr_value_is_zero_witness:
  "codegen loop_i in_f = (Some (ConstantFP 0), snd (codegen loop_i in_f))"
proof -
  obtain v s' where h: "codegen loop_i in_f = (Some v, s')"
    using loop_i_lowers [of in_f] by (cases "codegen loop_i in_f") auto
  from ForExpr_value_is_zero [OF h [unfolded loop_i_def]] h show ?thesis by simp
qed

text \<open>
  C8, as the code has it. When the lowering of a loop succeeds: the start expression is
  lowered in the scope of the outside; the condition, the body and the step are each
  lowered in a scope that binds the loop's variable to the PHI node of the loop and every
  other name as before; and the scope after the loop reads as the scope before it, for
  the loop's variable (bound or not) and for every other name.
\<close>

theorem ForExpr_scope_restored:
  assumes "codegen (ForExpr VarName Start Condition Step Body') s = (Some v, s')"
  shows "\<exists>start s1 f loop_bb end_bb var old_val s9 condition s10 split_bb s15 body s16 step s17.
           codegen Start s = (Some start, s1) \<and>
           ForExpr_loop VarName start s1 = (f, loop_bb, end_bb, var, old_val, s9) \<and>
           codegen Condition s9 = (Some condition, s10) \<and>
           ForExpr_split condition end_bb s10 = (split_bb, s15) \<and>
           codegen Body' s15 = (Some body, s16) \<and>
           codegen Step s16 = (Some step, s17) \<and>
           s' = ForExpr_endfor VarName f loop_bb end_bb var old_val split_bb step s17 \<and>
           bindings s9 = (bindings s)(VarName \<mapsto> Inst var) \<and>
           bindings s15 = (bindings s)(VarName \<mapsto> Inst var) \<and>
           bindings s16 = (bindings s)(VarName \<mapsto> Inst var) \<and>
           bindings s' = bindings s"
proof -
  from assms obtain start s1 f loop_bb end_bb var old_val s9 condition s10 split_bb s15
      body s16 step s17
    where st: "codegen Start s = (Some start, s1)"
      and lp: "ForExpr_loop VarName start s1 = (f, loop_bb, end_bb, var, old_val, s9)"
      and c: "codegen Condition s9 = (Some condition, s10)"
      and spl: "ForExpr_split condition end_bb s10 = (split_bb, s15)"
      and b: "codegen Body' s15 = (Some body, s16)"
      and sp: "codegen Step s16 = (Some step, s17)"
      and fin: "s' = ForExpr_endfor VarName f loop_bb end_bb var old_val split_bb step s17"
    by (auto split: prod.splits option.splits)
  have b1: "bindings s1 = bindings s"
    using st by (rule codegen_bindings)
  have "bindings s9 = (bindings s1)(VarName \<mapsto> Inst var)"
    using ForExpr_loop_env(2) [OF lp] by (rule bindings_upd)
  with b1 have b9: "bindings s9 = (bindings s)(VarName \<mapsto> Inst var)"
    by simp
  have "NamedValues s15 = NamedValues s10"
    using ForExpr_split_env(2) [of condition end_bb s10] spl by simp
  then have "bindings s15 = bindings s10"
    by (rule bindings_cong)
  with codegen_bindings [OF c] b9 have b15: "bindings s15 = (bindings s)(VarName \<mapsto> Inst var)"
    by simp
  with codegen_bindings [OF b] have b16: "bindings s16 = (bindings s)(VarName \<mapsto> Inst var)"
    by simp
  have b': "bindings s' = bindings s"
    using assms by (rule codegen_bindings)
  show ?thesis
    using st lp c spl b sp fin b9 b15 b16 b' by (intro exI conjI)
qed

text \<open>
  C8, an instance: in the body of \<^verbatim>\<open>def f(i)\<close> the name \<open>i\<close> is bound to the argument; the
  loop \<^verbatim>\<open>for i = 1, i < 5, 1 do i end\<close> is lowered, and the scope after it is the scope
  before it.
\<close>

theorem ForExpr_scope_restored_witness:
  "bindings in_f ''i'' = Some (Argument 0 0) \<and>
   fst (codegen loop_i in_f) = Some (ConstantFP 0) \<and>
   bindings (snd (codegen loop_i in_f)) = bindings in_f"
proof -
  obtain v s' where h: "codegen loop_i in_f = (Some v, s')"
    using loop_i_lowers [of in_f] by (cases "codegen loop_i in_f") auto
  from ForExpr_scope_restored [OF h [unfolded loop_i_def]]
  have "bindings s' = bindings in_f"
    by blast
  with h loop_i_lowers [of in_f] show ?thesis
    by (simp add: bindings_def in_f_def)
qed

text \<open>
  C8, the claim as stated fails. In the body of \<^verbatim>\<open>def f(i)\<close> the loop
  \<^verbatim>\<open>for i = 1, zz, 1 do 1 end\<close> fails in its condition, and the lowering of the loop
  returns with \<open>i\<close> still bound to the loop's PHI node (instruction 5), not to the
  argument.
\<close>

theorem ForExpr_failure_leaves_loop_variable:
  "bindings in_f ''i'' = Some (Argument 0 0) \<and>
   fst (codegen loop_zz in_f) = None \<and>
   bindings (snd (codegen loop_zz in_f)) ''i'' = Some (Inst 5)"
  by (simp add: loop_zz_def in_f_def bindings_def lowering_unf cong: prod.case_cong_weak)

end
